theory Spec2Isabelle
  imports Main "HOL-Library.Sublist"
begin

section \<open>Python text primitives used by validate-hook.py\<close>

text \<open>
  A Python \<open>str\<close> is modelled as a \<open>string\<close>, a list of 8-bit characters. ASCII text
  is one \<open>char\<close> per character, and the model is exact on ASCII text; the non-ASCII marks
  that prefix the report lines are written as their UTF-8 bytes. The character classes
  (\<open>str.isspace\<close>, the regular expression classes \<open>\s\<close> and \<open>\w\<close>) are the ASCII part of
  Python's classes.
\<close>

definition is_space :: "char \<Rightarrow> bool" where
  \<comment> \<open>\<open>str.isspace\<close> on ASCII: tab, newline, VT, FF, CR, the separators 0x1C..0x1F, space\<close>
  "is_space c = (c \<in> set [CHR 0x09, CHR 0x0A, CHR 0x0B, CHR 0x0C, CHR 0x0D,
                             CHR 0x1C, CHR 0x1D, CHR 0x1E, CHR 0x1F, CHR '' ''])"

definition is_word :: "char \<Rightarrow> bool" where
  \<comment> \<open>the class \<open>\w\<close> on ASCII\<close>
  "is_word c =
     (c \<in> set ''abcdefghijklmnopqrstuvwxyzABCDEFGHIJKLMNOPQRSTUVWXYZ0123456789_'')"

definition startswith :: "string \<Rightarrow> string \<Rightarrow> bool" where
  \<comment> \<open>\<open>s.startswith(p)\<close>\<close>
  "startswith s p = prefix p s"

definition endswith :: "string \<Rightarrow> string \<Rightarrow> bool" where
  \<comment> \<open>\<open>s.endswith(p)\<close>\<close>
  "endswith s p = prefix (rev p) (rev s)"

fun str_in :: "string \<Rightarrow> string \<Rightarrow> bool" where
  \<comment> \<open>\<open>sub in s\<close>: \<open>sub\<close> occurs in \<open>s\<close> as a contiguous substring\<close>
  "str_in sub [] = (sub = [])"
| "str_in sub (c # cs) = (prefix sub (c # cs) \<or> str_in sub cs)"

function replace_str :: "string \<Rightarrow> string \<Rightarrow> string \<Rightarrow> string" where
  \<comment> \<open>\<open>s.replace(old, new)\<close>: every non-overlapping occurrence, leftmost first; the
      replaced text is not scanned again\<close>
  "replace_str old new s =
     (if old = [] then new @ concat (map (\<lambda>c. c # new) s)
      else if s = [] then []
      else if prefix old s then new @ replace_str old new (drop (length old) s)
      else hd s # replace_str old new (tl s))"
  by pat_completeness auto
termination
  by (relation "measure (\<lambda>(old, new, s). length s)") auto

declare replace_str.simps [simp del]

definition strip :: "string \<Rightarrow> string" where
  \<comment> \<open>\<open>s.strip()\<close>\<close>
  "strip s = rev (dropWhile is_space (rev (dropWhile is_space s)))"

fun split_ws_from :: "string \<Rightarrow> string \<Rightarrow> string list" where
  \<comment> \<open>the scan of \<open>s.split()\<close>; \<open>cur\<close> is the token read so far\<close>
  "split_ws_from cur [] = (if cur = [] then [] else [cur])"
| "split_ws_from cur (c # cs) =
     (if is_space c then (if cur = [] then split_ws_from [] cs else cur # split_ws_from [] cs)
      else split_ws_from (cur @ [c]) cs)"

definition split_ws :: "string \<Rightarrow> string list" where
  \<comment> \<open>\<open>s.split()\<close>: the maximal runs of non-whitespace characters\<close>
  "split_ws s = split_ws_from [] s"

fun split_on :: "char \<Rightarrow> string \<Rightarrow> string list" where
  \<comment> \<open>\<open>s.split(sep)\<close> for a one-character separator; the result is never empty\<close>
  "split_on sep [] = [[]]"
| "split_on sep (c # cs) =
     (if c = sep then [] # split_on sep cs
      else (case split_on sep cs of [] \<Rightarrow> [[c]] | l # ls \<Rightarrow> (c # l) # ls))"

fun join :: "string \<Rightarrow> string list \<Rightarrow> string" where
  \<comment> \<open>\<open>sep.join(xs)\<close>\<close>
  "join sep [] = []"
| "join sep [x] = x"
| "join sep (x # y # ys) = x @ sep @ join sep (y # ys)"

function str_nat :: "nat \<Rightarrow> string" where
  \<comment> \<open>\<open>str(n)\<close> for a non-negative integer\<close>
  "str_nat n =
     (if n < 10 then [''0123456789'' ! n] else str_nat (n div 10) @ [''0123456789'' ! (n mod 10)])"
  by pat_completeness auto
termination
  by (relation "measure (\<lambda>n. n)") auto

declare str_nat.simps [simp del]

definition str_int :: "int \<Rightarrow> string" where
  \<comment> \<open>\<open>str(i)\<close>, as an f-string prints an integer\<close>
  "str_int i = (if i < 0 then ''-'' @ str_nat (nat (- i)) else str_nat (nat i))"


section \<open>Paths (pathlib.PurePosixPath)\<close>

text \<open>
  A path is its root (\<open>''''\<close> for a relative path, \<open>''/''\<close> or \<open>''//''\<close>) and its components,
  as pathlib holds it; two paths are equal when both are.
\<close>

datatype path = Path (path_root: string) (path_parts: "string list")

definition mk_path :: "string \<Rightarrow> path" where
  \<comment> \<open>\<open>Path(s)\<close>: empty components and \<open>.\<close> are dropped; exactly two leading slashes are kept\<close>
  "mk_path s =
     Path (if startswith s ''//'' \<and> \<not> startswith s ''///'' then ''//''
           else if startswith s ''/'' then ''/'' else '''')
          (filter (\<lambda>x. x \<noteq> [] \<and> x \<noteq> ''.'') (split_on (CHR ''/'') s))"

definition path_str :: "path \<Rightarrow> string" where
  \<comment> \<open>\<open>str(p)\<close>\<close>
  "path_str p =
     (if path_root p = [] \<and> path_parts p = [] then ''.''
      else path_root p @ join ''/'' (path_parts p))"

definition path_name :: "path \<Rightarrow> string" where
  \<comment> \<open>\<open>p.name\<close>: the last component, empty when there is none\<close>
  "path_name p = (if path_parts p = [] then [] else last (path_parts p))"

definition path_suffix :: "path \<Rightarrow> string" where
  \<comment> \<open>\<open>p.suffix\<close>: from the last dot of the name, when that dot is neither its first nor
      its last character\<close>
  "path_suffix p =
     (let name = path_name p; after = takeWhile (\<lambda>c. c \<noteq> CHR ''.'') (rev name)
      in if CHR ''.'' \<in> set name \<and> after \<noteq> [] \<and> length after + 1 < length name
         then CHR ''.'' # rev after else [])"

definition path_join :: "path \<Rightarrow> string \<Rightarrow> path" where
  \<comment> \<open>\<open>p / c\<close> for a one-component relative name \<open>c\<close>, as the source uses it\<close>
  "path_join p c = Path (path_root p) (path_parts p @ [c])"


section \<open>Parsed JSON and Python's dynamic operations on it\<close>

text \<open>
  The value \<open>json.loads\<close> returns. An object is the list of its items in insertion order
  (the order in which a \<open>dict\<close> is iterated); the keys of a parsed object are distinct, and
  a lookup reads the first item with the key. Non-integer numbers are not modelled. An
  operation that raises an exception the source does not catch returns \<open>None\<close>.
\<close>

datatype json =
    JNull
  | JBool bool
  | JInt int
  | JStr string
  | JArr "json list"
  | JObj "(string \<times> json) list"

fun truthy :: "json \<Rightarrow> bool" where
  \<comment> \<open>the truth value of \<open>v\<close> in \<open>if v\<close> and \<open>not v\<close>\<close>
  "truthy JNull = False"
| "truthy (JBool b) = b"
| "truthy (JInt i) = (i \<noteq> 0)"
| "truthy (JStr s) = (s \<noteq> [])"
| "truthy (JArr xs) = (xs \<noteq> [])"
| "truthy (JObj kvs) = (kvs \<noteq> [])"

fun dict_get :: "json \<Rightarrow> string \<Rightarrow> json \<Rightarrow> json option" where
  \<comment> \<open>\<open>d.get(k, dflt)\<close>; AttributeError when \<open>d\<close> is not a dict\<close>
  "dict_get (JObj kvs) k dflt = Some (case map_of kvs k of Some v \<Rightarrow> v | None \<Rightarrow> dflt)"
| "dict_get _ k dflt = None"

fun dict_items :: "json \<Rightarrow> (string \<times> json) list option" where
  \<comment> \<open>\<open>d.items()\<close>; AttributeError when \<open>d\<close> is not a dict\<close>
  "dict_items (JObj kvs) = Some kvs"
| "dict_items _ = None"

fun py_iter :: "json \<Rightarrow> json list option" where
  \<comment> \<open>the values a \<open>for\<close> loop over \<open>v\<close> visits: the elements of a list, the keys of a
      dict, the characters of a string; TypeError otherwise\<close>
  "py_iter (JArr xs) = Some xs"
| "py_iter (JObj kvs) = Some (map (\<lambda>kv. JStr (fst kv)) kvs)"
| "py_iter (JStr s) = Some (map (\<lambda>c. JStr [c]) s)"
| "py_iter _ = None"


section \<open>InstallationInfo and ValidationResult\<close>

record InstallationInfo =
  project :: bool
  local :: bool
  user :: bool
  events :: "string list"
  matchers :: "json list"

definition new_InstallationInfo :: InstallationInfo where
  "new_InstallationInfo =
     \<lparr>project = False, local = False, user = False, events = [], matchers = []\<rparr>"

definition is_installed :: "InstallationInfo \<Rightarrow> bool" where
  "is_installed i = (project i \<or> local i \<or> user i)"

definition level_description :: "InstallationInfo \<Rightarrow> string" where
  "level_description i =
     (let levels = (if project i then [''PROJECT (.claude/settings.json)''] else [])
                 @ (if local i then [''LOCAL (.claude/settings.local.json)''] else [])
                 @ (if user i then [''USER (~/.claude/settings.json)''] else [])
      in if levels \<noteq> [] then join '', '' levels else ''NOT INSTALLED'')"

definition scope_description :: "InstallationInfo \<Rightarrow> string" where
  "scope_description i =
     (if user i then ''Will run in ALL projects''
      else if project i \<or> local i then ''Will run in THIS project only''
      else ''Will NOT run (not registered in any settings file)'')"

record ValidationResult =
  errors :: "string list"
  warnings :: "string list"
  passed :: "string list"
  installation :: "InstallationInfo option"

definition new_result :: ValidationResult where
  "new_result = \<lparr>errors = [], warnings = [], passed = [], installation = None\<rparr>"

definition cross_mark :: string where
  \<comment> \<open>U+274C and a space\<close>
  "cross_mark = [CHR 0xE2, CHR 0x9D, CHR 0x8C, CHR '' '']"

definition warning_mark :: string where
  \<comment> \<open>U+26A0, U+FE0F and two spaces\<close>
  "warning_mark = [CHR 0xE2, CHR 0x9A, CHR 0xA0, CHR 0xEF, CHR 0xB8, CHR 0x8F, CHR '' '', CHR '' '']"

definition check_mark :: string where
  \<comment> \<open>U+2713 and a space\<close>
  "check_mark = [CHR 0xE2, CHR 0x9C, CHR 0x93, CHR '' '']"

definition info_mark :: string where
  \<comment> \<open>U+2139, U+FE0F and two spaces\<close>
  "info_mark = [CHR 0xE2, CHR 0x84, CHR 0xB9, CHR 0xEF, CHR 0xB8, CHR 0x8F, CHR '' '', CHR '' '']"

definition error :: "ValidationResult \<Rightarrow> string \<Rightarrow> ValidationResult" where
  "error r msg = r\<lparr>errors := errors r @ [cross_mark @ msg]\<rparr>"

definition warn :: "ValidationResult \<Rightarrow> string \<Rightarrow> ValidationResult" where
  "warn r msg = r\<lparr>warnings := warnings r @ [warning_mark @ msg]\<rparr>"

definition ok :: "ValidationResult \<Rightarrow> string \<Rightarrow> ValidationResult" where
  "ok r msg = r\<lparr>passed := passed r @ [check_mark @ msg]\<rparr>"

definition info :: "ValidationResult \<Rightarrow> string \<Rightarrow> ValidationResult" where
  "info r msg = r\<lparr>passed := passed r @ [info_mark @ msg]\<rparr>"

definition success :: "ValidationResult \<Rightarrow> bool" where
  "success r = (length (errors r) = 0)"


section \<open>The event schema registry\<close>

record EventSpec =
  required :: "string list"
  optional :: "string list"
  has_matcher :: bool
  can_block :: bool

definition EVENT_SCHEMAS :: "(string \<times> EventSpec) list" where
  "EVENT_SCHEMAS =
    [(''PreToolUse'',
        \<lparr>required = [''tool_name'', ''tool_input''], optional = [''tool_use_id'', ''session_id''],
         has_matcher = True, can_block = True\<rparr>),
     (''PostToolUse'',
        \<lparr>required = [''tool_name'', ''tool_input'', ''tool_response''],
         optional = [''tool_use_id'', ''session_id''], has_matcher = True, can_block = False\<rparr>),
     (''UserPromptSubmit'',
        \<lparr>required = [''prompt''], optional = [''session_id''],
         has_matcher = False, can_block = True\<rparr>),
     (''Stop'',
        \<lparr>required = [''stop_hook_active''], optional = [''transcript_path'', ''session_id''],
         has_matcher = False, can_block = True\<rparr>),
     (''SubagentStop'',
        \<lparr>required = [''stop_hook_active''], optional = [''transcript_path'', ''session_id''],
         has_matcher = False, can_block = True\<rparr>),
     (''SessionStart'',
        \<lparr>required = [''source''], optional = [''session_id''],
         has_matcher = True, can_block = False\<rparr>),
     (''SessionEnd'',
        \<lparr>required = [''reason''], optional = [''session_id''],
         has_matcher = False, can_block = False\<rparr>),
     (''PermissionRequest'',
        \<lparr>required = [''tool_name'', ''tool_input''], optional = [''tool_use_id'', ''session_id''],
         has_matcher = True, can_block = True\<rparr>),
     (''PreCompact'',
        \<lparr>required = [], optional = [''session_id''],
         has_matcher = True, can_block = False\<rparr>),
     (''Notification'',
        \<lparr>required = [''message'', ''notification_type''], optional = [''session_id''],
         has_matcher = True, can_block = False\<rparr>)]"

definition event_schema :: "string \<Rightarrow> EventSpec option" where
  \<comment> \<open>\<open>EVENT_SCHEMAS[event]\<close>; \<open>None\<close> is the KeyError, and \<open>event in EVENT_SCHEMAS\<close> is
      \<open>event_schema event \<noteq> None\<close>\<close>
  "event_schema event = map_of EVENT_SCHEMAS event"

definition in_EVENT_SCHEMAS :: "string \<Rightarrow> bool" where
  \<comment> \<open>\<open>event in EVENT_SCHEMAS\<close>\<close>
  "in_EVENT_SCHEMAS event = (event \<in> set (map fst EVENT_SCHEMAS))"

section \<open>The environment of a validation run\<close>

text \<open>
  What the validator reads from the file system and from the processes it starts is given
  by an environment: one answer per library call. A library call raises only the
  exceptions that the source names in an \<open>except\<close> clause around a call of its kind; a
  call of that kind that stands outside such a clause lets the exception through. The
  command line,
  the discovery of the scripts of a project and the printing of a report are not modelled.
\<close>

datatype read_outcome =
    ReadOk string         \<comment> \<open>\<open>script_path.read_text()\<close> returns the content\<close>
  | ReadError string      \<comment> \<open>it raises; the text of the exception\<close>

datatype parse_outcome =
    ParseOk                               \<comment> \<open>\<open>ast.parse(content)\<close> returns\<close>
  | ParseSyntaxError string "int option"  \<comment> \<open>SyntaxError with \<open>e.msg\<close> and \<open>e.lineno\<close>\<close>

datatype bash_outcome =
    BashCompleted int string   \<comment> \<open>\<open>bash -n\<close> ended: return code and stderr\<close>
  | BashTimeout                \<comment> \<open>subprocess.TimeoutExpired\<close>
  | BashNotFound               \<comment> \<open>FileNotFoundError\<close>

datatype run_outcome =
    RunCompleted int string string   \<comment> \<open>return code, stdout, stderr\<close>
  | RunTimeout                       \<comment> \<open>subprocess.TimeoutExpired\<close>
  | RunException string              \<comment> \<open>any other exception; its text\<close>

datatype json_outcome =
    JsonOk              \<comment> \<open>\<open>json.loads(stdout)\<close> returns\<close>
  | JsonDecodeError     \<comment> \<open>it raises json.JSONDecodeError\<close>
  | JsonRaises string   \<comment> \<open>it raises another exception (RecursionError on deep nesting);
                            its text\<close>

datatype file_state =
    Missing             \<comment> \<open>\<open>settings_path.exists()\<close> is false\<close>
  | Unreadable          \<comment> \<open>\<open>read_text()\<close> raises OSError\<close>
  | Malformed string    \<comment> \<open>\<open>json.loads\<close> raises JSONDecodeError; its text\<close>
  | Loaded json         \<comment> \<open>the parsed document\<close>

datatype resolve_outcome =
    Resolved path       \<comment> \<open>\<open>p.resolve()\<close> returns the absolute path\<close>
  | ResolveError        \<comment> \<open>it raises OSError or ValueError\<close>

record env =
  path_exists :: "path \<Rightarrow> bool"            \<comment> \<open>\<open>p.exists()\<close> of a script\<close>
  access_x :: "path \<Rightarrow> bool"               \<comment> \<open>\<open>os.access(p, os.X_OK)\<close>\<close>
  read_text :: "path \<Rightarrow> read_outcome"      \<comment> \<open>\<open>p.read_text()\<close> of a script\<close>
  ast_parse :: "string \<Rightarrow> parse_outcome"   \<comment> \<open>\<open>ast.parse(content)\<close>\<close>
  bash_n :: "path \<Rightarrow> bash_outcome"         \<comment> \<open>\<open>bash -n script\<close>, 5 seconds\<close>
  run_script :: "string \<Rightarrow> path \<Rightarrow> json \<Rightarrow> path \<Rightarrow> run_outcome"
    \<comment> \<open>the interpreter on the script, the payload on stdin, \<open>CLAUDE_PROJECT_DIR\<close> set to the
        project directory, 10 seconds\<close>
  json_loads :: "string \<Rightarrow> json_outcome"   \<comment> \<open>\<open>json.loads(stdout)\<close> of the probe's output\<close>
  settings_file :: "path \<Rightarrow> file_state"    \<comment> \<open>a settings file, read and parsed\<close>
  resolve :: "path \<Rightarrow> resolve_outcome"      \<comment> \<open>\<open>p.resolve()\<close>\<close>
  home :: path                                   \<comment> \<open>\<open>Path.home()\<close>\<close>


section \<open>Installation: find_hook_in_settings and check_installation_status\<close>

definition get_settings_paths :: "env \<Rightarrow> path \<Rightarrow> path \<times> path \<times> path" where
  \<comment> \<open>the paths under the keys \<open>project\<close>, \<open>local\<close>, \<open>user\<close>, in this order\<close>
  "get_settings_paths e project_dir =
     (path_join (path_join project_dir ''.claude'') ''settings.json'',
      path_join (path_join project_dir ''.claude'') ''settings.local.json'',
      path_join (path_join (home e) ''.claude'') ''settings.json'')"

definition dquote :: char where
  "dquote = CHR 0x22"

definition squote :: char where
  "squote = CHR 0x27"

definition placeholder :: string where
  "placeholder = ''$CLAUDE_PROJECT_DIR''"

definition expand_command :: "path \<Rightarrow> string \<Rightarrow> string" where
  \<comment> \<open>lines 337 to 339: the double-quoted, the single-quoted, then the bare placeholder\<close>
  "expand_command project_dir command =
     replace_str placeholder (path_str project_dir)
       (replace_str ([squote] @ placeholder @ [squote]) (path_str project_dir)
          (replace_str ([dquote] @ placeholder @ [dquote]) (path_str project_dir) command))"

definition strip_quotes :: "string \<Rightarrow> string" where
  \<comment> \<open>line 345: \<open>expanded.replace('"', '').replace("'", '')\<close>\<close>
  "strip_quotes expanded = replace_str [squote] [] (replace_str [dquote] [] expanded)"

type_synonym found_state = "bool \<times> string list \<times> json list"

fun match_parts :: "env \<Rightarrow> string \<Rightarrow> path \<Rightarrow> string list \<Rightarrow> bool" where
  \<comment> \<open>lines 347 to 367, the loop over the tokens: true when it leaves by \<open>break\<close>, on a
      resolved-path match or on the filename suffix match\<close>
  "match_parts e hook_name hook_abs [] = False"
| "match_parts e hook_name hook_abs (part # parts) =
     (if str_in hook_name part then
        (if resolve e (mk_path part) = Resolved hook_abs then True
         else if endswith part hook_name then True
         else match_parts e hook_name hook_abs parts)
      else match_parts e hook_name hook_abs parts)"

definition scan_hook ::
  "env \<Rightarrow> string \<Rightarrow> path \<Rightarrow> path \<Rightarrow> string \<Rightarrow> json \<Rightarrow> json \<Rightarrow> found_state
     \<Rightarrow> found_state option" where
  \<comment> \<open>lines 329 to 367, the body of \<open>for hook in hook_list\<close>\<close>
  "scan_hook e hook_name hook_abs project_dir event matcher hook st =
     (case dict_get hook ''type'' (JStr ''command'') of
        None \<Rightarrow> None
      | Some t \<Rightarrow>
          if t \<noteq> JStr ''command'' then Some st
          else (case dict_get hook ''command'' (JStr []) of
             None \<Rightarrow> None
           | Some command \<Rightarrow>
               if \<not> truthy command then Some st
               else (case command of
                  JStr c \<Rightarrow>
                    (let expanded = expand_command project_dir c in
                     if str_in hook_name expanded
                        \<and> match_parts e hook_name hook_abs (split_ws (strip_quotes expanded))
                     then (case st of (found, evs, ms) \<Rightarrow>
                             Some (True, evs @ [event],
                                   if matcher \<noteq> JStr ''*'' then ms @ [matcher] else ms))
                     else Some st)
                | _ \<Rightarrow> None)))"

fun scan_hooks ::
  "env \<Rightarrow> string \<Rightarrow> path \<Rightarrow> path \<Rightarrow> string \<Rightarrow> json \<Rightarrow> json list \<Rightarrow> found_state
     \<Rightarrow> found_state option" where
  "scan_hooks e hook_name hook_abs project_dir event matcher [] st = Some st"
| "scan_hooks e hook_name hook_abs project_dir event matcher (hook # hooks) st =
     (case scan_hook e hook_name hook_abs project_dir event matcher hook st of
        None \<Rightarrow> None
      | Some st' \<Rightarrow> scan_hooks e hook_name hook_abs project_dir event matcher hooks st')"

definition scan_config ::
  "env \<Rightarrow> string \<Rightarrow> path \<Rightarrow> path \<Rightarrow> string \<Rightarrow> json \<Rightarrow> found_state
     \<Rightarrow> found_state option" where
  \<comment> \<open>lines 325 to 328, the body of \<open>for config in configs\<close>\<close>
  "scan_config e hook_name hook_abs project_dir event config st =
     (case dict_get config ''matcher'' (JStr ''*'') of
        None \<Rightarrow> None
      | Some matcher \<Rightarrow>
          (case dict_get config ''hooks'' (JArr []) of
             None \<Rightarrow> None
           | Some hook_list \<Rightarrow>
               (case py_iter hook_list of
                  None \<Rightarrow> None
                | Some hooks \<Rightarrow>
                    scan_hooks e hook_name hook_abs project_dir event matcher hooks st)))"

fun scan_configs ::
  "env \<Rightarrow> string \<Rightarrow> path \<Rightarrow> path \<Rightarrow> string \<Rightarrow> json list \<Rightarrow> found_state
     \<Rightarrow> found_state option" where
  "scan_configs e hook_name hook_abs project_dir event [] st = Some st"
| "scan_configs e hook_name hook_abs project_dir event (config # configs) st =
     (case scan_config e hook_name hook_abs project_dir event config st of
        None \<Rightarrow> None
      | Some st' \<Rightarrow> scan_configs e hook_name hook_abs project_dir event configs st')"

fun scan_events ::
  "env \<Rightarrow> string \<Rightarrow> path \<Rightarrow> path \<Rightarrow> (string \<times> json) list \<Rightarrow> found_state
     \<Rightarrow> found_state option" where
  \<comment> \<open>line 323, \<open>for event, configs in hooks_config.items()\<close>\<close>
  "scan_events e hook_name hook_abs project_dir [] st = Some st"
| "scan_events e hook_name hook_abs project_dir ((event, configs) # items) st =
     (case py_iter configs of
        None \<Rightarrow> None
      | Some cs \<Rightarrow>
          (case scan_configs e hook_name hook_abs project_dir event cs st of
             None \<Rightarrow> None
           | Some st' \<Rightarrow> scan_events e hook_name hook_abs project_dir items st'))"

definition find_hook_in_settings :: "env \<Rightarrow> path \<Rightarrow> path \<Rightarrow> path \<Rightarrow> found_state option" where
  \<comment> \<open>\<open>(found, events, matchers)\<close>; \<open>None\<close> when the settings have a shape on which the
      source raises (a value that is not a dict where \<open>.get\<close> or \<open>.items\<close> is called, a value
      that cannot be iterated, a command that is not a string) or when the script's own
      path does not resolve\<close>
  "find_hook_in_settings e settings_path hook_script project_dir =
     (case settings_file e settings_path of
        Missing \<Rightarrow> Some (False, [], [])
      | Unreadable \<Rightarrow> Some (False, [], [])
      | Malformed msg \<Rightarrow> Some (False, [], [])
      | Loaded settings \<Rightarrow>
          (case dict_get settings ''hooks'' (JObj []) of
             None \<Rightarrow> None
           | Some hooks_config \<Rightarrow>
               if \<not> truthy hooks_config then Some (False, [], [])
               else (case resolve e hook_script of
                  ResolveError \<Rightarrow> None
                | Resolved hook_abs \<Rightarrow>
                    (case dict_items hooks_config of
                       None \<Rightarrow> None
                     | Some items \<Rightarrow>
                         scan_events e (path_name hook_script) hook_abs project_dir items
                           (False, [], [])))))"

definition check_installation_status :: "env \<Rightarrow> path \<Rightarrow> path \<Rightarrow> InstallationInfo option" where
  "check_installation_status e hook_script project_dir =
     (case get_settings_paths e project_dir of (p_project, p_local, p_user) \<Rightarrow>
      (case find_hook_in_settings e p_project hook_script project_dir of
         None \<Rightarrow> None
       | Some (found1, events1, matchers1) \<Rightarrow>
      (case find_hook_in_settings e p_local hook_script project_dir of
         None \<Rightarrow> None
       | Some (found2, events2, matchers2) \<Rightarrow>
      (case find_hook_in_settings e p_user hook_script project_dir of
         None \<Rightarrow> None
       | Some (found3, events3, matchers3) \<Rightarrow>
          (let i0 = new_InstallationInfo;
               i1 = (if found1 then i0\<lparr>project := True, events := events i0 @ events1,
                                        matchers := matchers i0 @ matchers1\<rparr> else i0);
               i2 = (if found2 then i1\<lparr>local := True, events := events i1 @ events2,
                                        matchers := matchers i1 @ matchers2\<rparr> else i1);
               i3 = (if found3 then i2\<lparr>user := True, events := events i2 @ events3,
                                        matchers := matchers i2 @ matchers3\<rparr> else i2)
           in Some i3)))))"


section \<open>Event detection\<close>

definition TEST_INPUTS :: "(string \<times> json) list" where
  "TEST_INPUTS =
    [(''PreToolUse'', JObj
        [(''hook_event_name'', JStr ''PreToolUse''), (''tool_name'', JStr ''Write''),
         (''tool_input'', JObj [(''file_path'', JStr ''/tmp/test.txt''), (''content'', JStr ''test'')]),
         (''tool_use_id'', JStr ''test-123''), (''session_id'', JStr ''session-abc'')]),
     (''PostToolUse'', JObj
        [(''hook_event_name'', JStr ''PostToolUse''), (''tool_name'', JStr ''Write''),
         (''tool_input'', JObj [(''file_path'', JStr ''/tmp/test.txt''), (''content'', JStr ''test'')]),
         (''tool_response'', JObj [(''success'', JBool True)]),
         (''tool_use_id'', JStr ''test-123''), (''session_id'', JStr ''session-abc'')]),
     (''UserPromptSubmit'', JObj
        [(''hook_event_name'', JStr ''UserPromptSubmit''), (''prompt'', JStr ''Hello, world!''),
         (''session_id'', JStr ''session-abc'')]),
     (''Stop'', JObj
        [(''hook_event_name'', JStr ''Stop''), (''stop_hook_active'', JBool False),
         (''transcript_path'', JStr ''/tmp/transcript.json''), (''session_id'', JStr ''session-abc'')]),
     (''SubagentStop'', JObj
        [(''hook_event_name'', JStr ''SubagentStop''), (''stop_hook_active'', JBool False),
         (''transcript_path'', JStr ''/tmp/transcript.json''), (''session_id'', JStr ''session-abc'')]),
     (''SessionStart'', JObj
        [(''hook_event_name'', JStr ''SessionStart''), (''source'', JStr ''startup''),
         (''session_id'', JStr ''session-abc'')]),
     (''SessionEnd'', JObj
        [(''hook_event_name'', JStr ''SessionEnd''), (''reason'', JStr ''logout''),
         (''session_id'', JStr ''session-abc'')]),
     (''PermissionRequest'', JObj
        [(''hook_event_name'', JStr ''PermissionRequest''), (''tool_name'', JStr ''Bash''),
         (''tool_input'', JObj [(''command'', JStr ''ls -la'')]),
         (''tool_use_id'', JStr ''test-123''), (''session_id'', JStr ''session-abc'')]),
     (''PreCompact'', JObj
        [(''hook_event_name'', JStr ''PreCompact''), (''session_id'', JStr ''session-abc'')]),
     (''Notification'', JObj
        [(''hook_event_name'', JStr ''Notification''), (''message'', JStr ''Test notification''),
         (''notification_type'', JStr ''idle_prompt''), (''session_id'', JStr ''session-abc'')])]"

fun search_event_marker :: "string \<Rightarrow> string option" where
  \<comment> \<open>group 1 of \<open>re.search(r'Event:\s*(\w+)', content)\<close>: at the leftmost position where
      \<open>Event:\<close>, any whitespace and at least one word character follow, the longest run of
      word characters (the two classes are disjoint, so backtracking finds nothing else)\<close>
  "search_event_marker [] = None"
| "search_event_marker (c # cs) =
     (let w = takeWhile is_word (dropWhile is_space (drop 6 (c # cs)))
      in if startswith (c # cs) ''Event:'' \<and> w \<noteq> [] then Some w
         else search_event_marker cs)"

definition detect_hook_event :: "path \<Rightarrow> string \<Rightarrow> string option" where
  "detect_hook_event script_path content =
     (case (case search_event_marker content of
              None \<Rightarrow> None
            | Some event \<Rightarrow> if in_EVENT_SCHEMAS event then Some event else None) of
        Some event \<Rightarrow> Some event
      | None \<Rightarrow>
          if str_in ''stop_hook_active'' content then Some ''Stop''
          else if str_in ''tool_response'' content then Some ''PostToolUse''
          else if (str_in ([dquote] @ ''prompt'' @ [dquote]) content \<or> str_in ''prompt'' content)
                  \<and> \<not> str_in ''tool_name'' content then Some ''UserPromptSubmit''
          else if str_in ''notification_type'' content then Some ''Notification''
          else if str_in ([dquote] @ ''source'' @ [dquote]) content \<and> str_in ''startup'' content
            then Some ''SessionStart''
          else if str_in ([dquote] @ ''reason'' @ [dquote]) content
                  \<and> \<not> str_in ''tool_name'' content then Some ''SessionEnd''
          else if str_in ''tool_name'' content then Some ''PreToolUse''
          else None)"


section \<open>validate_hook_script\<close>

text \<open>
  The function is modelled step by step, under the numbers of the source's comments. Each
  step takes the report built so far and returns it extended.
\<close>

definition check_shebang :: "path \<Rightarrow> string list \<Rightarrow> ValidationResult \<Rightarrow> bool \<times> bool \<times> ValidationResult" where
  \<comment> \<open>step 4, lines 453 to 471: \<open>(is_python, is_bash, result)\<close>\<close>
  "check_shebang script_path lines result =
     (case lines of
        [] \<Rightarrow> (False, False, error result
                 ''Missing shebang (should start with #!/usr/bin/env python3 or #!/bin/bash)'')
      | line0 # rest \<Rightarrow>
          if \<not> startswith line0 ''#!'' then
            (False, False, error result
               ''Missing shebang (should start with #!/usr/bin/env python3 or #!/bin/bash)'')
          else if str_in ''python'' line0 then (True, False, ok result ''Valid Python shebang'')
          else if str_in ''bash'' line0 \<or> str_in ''sh'' line0 then
            (False, True, ok result ''Valid Bash shebang'')
          else
            (path_suffix script_path = ''.py'',
             path_suffix script_path \<noteq> ''.py'' \<and> path_suffix script_path = ''.sh'',
             warn result (''Unusual shebang: '' @ line0)))"

definition check_syntax ::
  "env \<Rightarrow> path \<Rightarrow> string \<Rightarrow> bool \<Rightarrow> bool \<Rightarrow> ValidationResult \<Rightarrow> bool \<times> ValidationResult" where
  \<comment> \<open>step 5, lines 474 to 496; the first component is true when the function returns
      here (line 480)\<close>
  "check_syntax e script_path content is_python is_bash result =
     (if is_python then
        (case ast_parse e content of
           ParseOk \<Rightarrow> (False, ok result ''Python syntax valid'')
         | ParseSyntaxError msg lineno \<Rightarrow>
             (True, error result
                (''Python syntax error: '' @ msg @ '' (line ''
                   @ (case lineno of None \<Rightarrow> ''None'' | Some n \<Rightarrow> str_int n) @ '')'')))
      else if is_bash then
        (case bash_n e script_path of
           BashCompleted returncode stderr \<Rightarrow>
             if returncode \<noteq> 0 then
               (False, error result (''Bash syntax error: '' @ strip stderr))
             else (False, ok result ''Bash syntax valid'')
         | BashTimeout \<Rightarrow> (False, warn result ''Bash syntax check timed out'')
         | BashNotFound \<Rightarrow> (False, warn result ''Cannot check bash syntax (bash not found)''))
      else (False, result))"

definition check_json_input :: "string \<Rightarrow> bool \<Rightarrow> bool \<Rightarrow> ValidationResult \<Rightarrow> ValidationResult" where
  \<comment> \<open>step 6, lines 499 to 508\<close>
  "check_json_input content is_python is_bash result =
     (if is_python then
        (if str_in ''json.load(sys.stdin)'' content \<or> str_in ''json.loads'' content then
           ok result ''Handles JSON input from stdin''
         else warn result ''No json.load(sys.stdin) found - may not handle input correctly'')
      else if is_bash then
        (if str_in ''cat'' content \<or> str_in ''INPUT=$('' content \<or> str_in ''read'' content then
           ok result ''Reads input from stdin''
         else warn result ''May not read input from stdin'')
      else result)"

definition py_or :: "string option \<Rightarrow> string option \<Rightarrow> string option" where
  \<comment> \<open>\<open>a or b\<close> on optional strings: \<open>a\<close> unless it is \<open>None\<close> or empty\<close>
  "py_or a b = (case a of None \<Rightarrow> b | Some s \<Rightarrow> if s \<noteq> [] then Some s else b)"

definition check_event :: "string option \<Rightarrow> string \<Rightarrow> ValidationResult \<Rightarrow> ValidationResult" where
  \<comment> \<open>step 7, lines 512 to 522, for the event of line 511\<close>
  "check_event event content result =
     (case event of
        None \<Rightarrow> warn result ''Could not detect event type from script content''
      | Some ev \<Rightarrow>
          if ev = [] then warn result ''Could not detect event type from script content''
          else
            (let result = ok result (''Detected event type: '' @ ev) in
             if ev \<in> set [''Stop'', ''SubagentStop''] then
               (if \<not> str_in ''stop_hook_active'' content then
                  error result ''Stop hook missing stop_hook_active check (infinite loop risk!)''
                else ok result ''Has stop_hook_active check (prevents infinite loops)'')
             else result))"

definition check_exit_codes :: "string \<Rightarrow> bool \<Rightarrow> bool \<Rightarrow> ValidationResult \<Rightarrow> ValidationResult" where
  \<comment> \<open>step 8, lines 525 to 536\<close>
  "check_exit_codes content is_python is_bash result =
     (if is_python then
        (let result = (if str_in ''sys.exit(2)'' content
                       then ok result ''Uses exit(2) for blocking'' else result);
             result = (if str_in ''sys.exit(0)'' content
                       then ok result ''Uses exit(0) for success'' else result)
         in if str_in ''sys.exit(1)'' content
            then warn result ''Uses exit(1) - non-blocking error (logged only)'' else result)
      else if is_bash then
        (let result = (if str_in ''exit 2'' content
                       then ok result ''Uses exit 2 for blocking'' else result)
         in if str_in ''exit 0'' content
            then ok result ''Uses exit 0 for success'' else result)
      else result)"

definition report_run :: "env \<Rightarrow> run_outcome \<Rightarrow> ValidationResult \<Rightarrow> ValidationResult" where
  \<comment> \<open>step 9, lines 551 to 568: the classification of the probe's outcome. Lines 551 to 562
      give the report and, when \<open>json.loads\<close> raises an exception that line 557 does not
      catch, that exception: \<open>except Exception\<close> (line 567) then records it and the stderr
      check of lines 563 to 564 is not reached\<close>
  "report_run e outcome result =
     (case outcome of
        RunCompleted returncode stdout stderr \<Rightarrow>
          (case (if returncode \<in> set [0, 1, 2] then
                   (let result = ok result
                          (''Runtime test passed (exit code: '' @ str_int returncode @ '')'') in
                    if strip stdout \<noteq> [] then
                      (case json_loads e stdout of
                         JsonOk \<Rightarrow> (ok result ''Outputs valid JSON'', None)
                       | JsonDecodeError \<Rightarrow>
                           (if length stdout < 200 then
                              ok result (''Outputs text: '' @ take 50 (strip stdout))
                            else result, None)
                       | JsonRaises ex \<Rightarrow> (result, Some ex))
                    else (result, None))
                 else (error result (''Unexpected exit code: '' @ str_int returncode), None)) of
             (result, Some ex) \<Rightarrow> error result (''Runtime test failed: '' @ ex)
           | (result, None) \<Rightarrow>
               if strip stderr \<noteq> [] \<and> returncode \<noteq> 2 then
                 warn result (''Stderr output: '' @ take 100 (strip stderr))
               else result)
      | RunTimeout \<Rightarrow> error result ''Script timed out (>10s) on test input''
      | RunException ex \<Rightarrow> error result (''Runtime test failed: '' @ ex))"

definition runtime_test ::
  "env \<Rightarrow> path \<Rightarrow> path \<Rightarrow> string option \<Rightarrow> bool \<Rightarrow> bool \<Rightarrow> ValidationResult
     \<Rightarrow> ValidationResult" where
  \<comment> \<open>step 9, lines 539 to 550: whether the probe runs, its payload and its interpreter\<close>
  "runtime_test e script_path project_dir event is_python is_bash result =
     (case event of
        None \<Rightarrow> result
      | Some ev \<Rightarrow>
          if ev \<noteq> [] \<and> (is_python \<or> is_bash) then
            (let test_input =
                   (case map_of TEST_INPUTS ev of
                      Some v \<Rightarrow> v
                    | None \<Rightarrow> JObj [(''hook_event_name'', JStr ''Unknown'')]);
                 interpreter = (if is_python then ''python3'' else ''bash'')
             in report_run e (run_script e interpreter script_path test_input project_dir) result)
          else result)"

definition validate_content ::
  "env \<Rightarrow> path \<Rightarrow> path \<Rightarrow> string option \<Rightarrow> string \<Rightarrow> ValidationResult
     \<Rightarrow> ValidationResult option" where
  \<comment> \<open>steps 4 to 10, lines 453 to 573, once the content is read\<close>
  "validate_content e script_path project_dir event_hint content result =
     (case check_shebang script_path (split_on (CHR 0x0A) content) result of
        (is_python, is_bash, result) \<Rightarrow>
     (case check_syntax e script_path content is_python is_bash result of
        (True, result) \<Rightarrow> Some result
      | (False, result) \<Rightarrow>
          (let result = check_json_input content is_python is_bash result;
               event = py_or event_hint (detect_hook_event script_path content);
               result = check_event event content result;
               result = check_exit_codes content is_python is_bash result;
               result = runtime_test e script_path project_dir event is_python is_bash result
           in (case check_installation_status e script_path project_dir of
                 None \<Rightarrow> None
               | Some i \<Rightarrow> Some (result\<lparr>installation := Some i\<rparr>)))))"

definition validate_hook_script ::
  "env \<Rightarrow> path \<Rightarrow> path \<Rightarrow> string option \<Rightarrow> ValidationResult option" where
  \<comment> \<open>the report; \<open>None\<close> when \<open>check_installation_status\<close> raises\<close>
  "validate_hook_script e script_path project_dir event_hint =
     (let result = new_result in
      if \<not> path_exists e script_path then
        Some (error result (''Script not found: '' @ path_str script_path))
      else
        (let result = ok result (''Script exists: '' @ path_name script_path);
             result = (if \<not> access_x e script_path
                       then error result ''Script is not executable (run: chmod +x)''
                       else ok result ''Script is executable'')
         in (case read_text e script_path of
               ReadError ex \<Rightarrow> Some (error result (''Cannot read script: '' @ ex))
             | ReadOk content \<Rightarrow>
                 validate_content e script_path project_dir event_hint content result)))"


section \<open>validate_settings\<close>

definition validate_hook ::
  "env \<Rightarrow> path \<Rightarrow> string \<Rightarrow> EventSpec \<Rightarrow> nat \<Rightarrow> nat \<Rightarrow> json \<Rightarrow> ValidationResult
     \<Rightarrow> ValidationResult option" where
  \<comment> \<open>lines 615 to 652, the body of \<open>for j, hook in enumerate(hook_list)\<close>\<close>
  "validate_hook e project_dir event schema i j hook result =
     (case dict_get hook ''type'' (JStr ''command'') of
        None \<Rightarrow> None
      | Some hook_type \<Rightarrow>
          if hook_type = JStr ''command'' then
            (case dict_get hook ''command'' (JStr []) of
               None \<Rightarrow> None
             | Some command \<Rightarrow>
                 if \<not> truthy command then
                   Some (error result
                     (event @ ''['' @ str_nat i @ ''].hooks['' @ str_nat j @ '']: Empty command''))
                 else (case command of
                    JStr c \<Rightarrow>
                      (let expanded_cmd =
                             replace_str ([dquote] @ placeholder @ [dquote]) (path_str project_dir)
                               (replace_str placeholder (path_str project_dir) c)
                       in (case find (\<lambda>part. endswith part ''.py'' \<or> endswith part ''.sh'')
                                  (split_ws expanded_cmd) of
                             Some part \<Rightarrow>
                               (let script_path = mk_path part in
                                if path_exists e script_path then
                                  (let result = ok result
                                         (event @ '': Script exists: '' @ path_name script_path)
                                   in if \<not> access_x e script_path then
                                        Some (error result
                                          (event @ '': Script not executable: ''
                                             @ path_name script_path))
                                      else Some result)
                                else Some (error result
                                       (event @ '': Script not found: '' @ path_str script_path)))
                           | None \<Rightarrow>
                               Some (warn result
                                 (event @ ''['' @ str_nat i @ ''].hooks['' @ str_nat j
                                    @ '']: Could not identify script in command''))))
                  | _ \<Rightarrow> None))
          else if hook_type = JStr ''prompt'' then
            (case dict_get hook ''prompt'' (JStr []) of
               None \<Rightarrow> None
             | Some prompt \<Rightarrow>
                 if \<not> truthy prompt then
                   Some (error result
                     (event @ ''['' @ str_nat i @ ''].hooks['' @ str_nat j @ '']: Empty prompt''))
                 else
                   (let result = ok result (event @ '': Prompt-based hook configured'') in
                    if \<not> can_block schema then
                      Some (warn result
                        (event @ '': Prompt hooks on '' @ event @ '' cannot block operations''))
                    else Some result))
          else Some result)"

fun validate_hooks ::
  "env \<Rightarrow> path \<Rightarrow> string \<Rightarrow> EventSpec \<Rightarrow> nat \<Rightarrow> nat \<Rightarrow> json list \<Rightarrow> ValidationResult
     \<Rightarrow> ValidationResult option" where
  \<comment> \<open>line 614, the loop with its counter \<open>j\<close>\<close>
  "validate_hooks e project_dir event schema i j [] result = Some result"
| "validate_hooks e project_dir event schema i j (hook # hooks) result =
     (case validate_hook e project_dir event schema i j hook result of
        None \<Rightarrow> None
      | Some result' \<Rightarrow> validate_hooks e project_dir event schema i (Suc j) hooks result')"

definition validate_config ::
  "env \<Rightarrow> path \<Rightarrow> string \<Rightarrow> EventSpec \<Rightarrow> nat \<Rightarrow> json \<Rightarrow> ValidationResult
     \<Rightarrow> ValidationResult option" where
  \<comment> \<open>lines 609 to 614, the body of \<open>for i, config in enumerate(configs)\<close>; a config that is
      not a dict raises, at \<open>"matcher" in config\<close> or at \<open>config.get\<close>\<close>
  "validate_config e project_dir event schema i config result =
     (case config of
        JObj kvs \<Rightarrow>
          (let result =
                 (if ''matcher'' \<in> set (map fst kvs) \<and> \<not> has_matcher schema then
                    warn result
                      (event @ ''['' @ str_nat i @ '']: Matcher specified but '' @ event
                         @ '' doesn'' @ [squote] @ ''t support matchers'')
                  else result)
           in (case dict_get config ''hooks'' (JArr []) of
                 None \<Rightarrow> None
               | Some hook_list \<Rightarrow>
                   (case py_iter hook_list of
                      None \<Rightarrow> None
                    | Some hooks \<Rightarrow>
                        validate_hooks e project_dir event schema i 0 hooks result)))
      | _ \<Rightarrow> None)"

fun validate_configs ::
  "env \<Rightarrow> path \<Rightarrow> string \<Rightarrow> EventSpec \<Rightarrow> nat \<Rightarrow> json list \<Rightarrow> ValidationResult
     \<Rightarrow> ValidationResult option" where
  \<comment> \<open>line 608, the loop with its counter \<open>i\<close>\<close>
  "validate_configs e project_dir event schema i [] result = Some result"
| "validate_configs e project_dir event schema i (config # configs) result =
     (case validate_config e project_dir event schema i config result of
        None \<Rightarrow> None
      | Some result' \<Rightarrow> validate_configs e project_dir event schema (Suc i) configs result')"

definition validate_event ::
  "env \<Rightarrow> path \<Rightarrow> string \<Rightarrow> json \<Rightarrow> ValidationResult \<Rightarrow> ValidationResult option" where
  \<comment> \<open>lines 602 to 608, the body of \<open>for event, configs in hooks.items()\<close>\<close>
  "validate_event e project_dir event configs result =
     (if \<not> in_EVENT_SCHEMAS event then Some (error result (''Unknown event type: '' @ event))
      else (case event_schema event of
         None \<Rightarrow> None
       | Some schema \<Rightarrow>
           (case py_iter configs of
              None \<Rightarrow> None
            | Some cs \<Rightarrow> validate_configs e project_dir event schema 0 cs result)))"

fun validate_events ::
  "env \<Rightarrow> path \<Rightarrow> (string \<times> json) list \<Rightarrow> ValidationResult \<Rightarrow> ValidationResult option" where
  \<comment> \<open>line 601, the loop over the items of \<open>hooks\<close>\<close>
  "validate_events e project_dir [] result = Some result"
| "validate_events e project_dir ((event, configs) # items) result =
     (case validate_event e project_dir event configs result of
        None \<Rightarrow> None
      | Some result' \<Rightarrow> validate_events e project_dir items result')"

definition validate_settings :: "env \<Rightarrow> path \<Rightarrow> path \<Rightarrow> string \<Rightarrow> ValidationResult option" where
  \<comment> \<open>the report; \<open>None\<close> when the source raises: the file exists and cannot be read, or the
      document has a shape on which a dict or list operation fails\<close>
  "validate_settings e settings_path project_dir level_name =
     (let result = new_result;
          display_name = (if level_name \<noteq> [] then level_name else path_name settings_path)
      in (case settings_file e settings_path of
            Missing \<Rightarrow>
              Some (info result (display_name @ '': File not found (no hooks at this level)''))
          | Unreadable \<Rightarrow> None
          | Malformed msg \<Rightarrow>
              Some (error result (''Invalid JSON in '' @ display_name @ '': '' @ msg))
          | Loaded settings \<Rightarrow>
              (let result = ok result (display_name @ '': Valid JSON'') in
               (case dict_get settings ''hooks'' (JObj []) of
                  None \<Rightarrow> None
                | Some hooks \<Rightarrow>
                    if \<not> truthy hooks then
                      Some (info result (display_name @ '': No hooks configured''))
                    else (case hooks of
                       JObj items \<Rightarrow>
                         validate_events e project_dir items
                           (ok result (display_name @ '': '' @ str_nat (length items)
                                         @ '' event type(s) configured''))
                     | _ \<Rightarrow> None)))))"


section \<open>Notions used in the statements\<close>

definition not_executable_error :: string where
  \<comment> \<open>the line that \<open>result.error\<close> records at line 441\<close>
  "not_executable_error = cross_mark @ ''Script is not executable (run: chmod +x)''"

definition missing_shebang_error :: string where
  \<comment> \<open>the line recorded at line 458\<close>
  "missing_shebang_error =
     cross_mark @ ''Missing shebang (should start with #!/usr/bin/env python3 or #!/bin/bash)''"

definition stop_guard_error :: string where
  \<comment> \<open>the line recorded at line 518\<close>
  "stop_guard_error =
     cross_mark @ ''Stop hook missing stop_hook_active check (infinite loop risk!)''"

definition syntax_check_returns :: "env \<Rightarrow> path \<Rightarrow> string \<Rightarrow> bool" where
  \<comment> \<open>the validation of this content ends in step 5, at the \<open>return\<close> of line 480\<close>
  "syntax_check_returns e script_path content =
     (case check_shebang script_path (split_on (CHR 0x0A) content) new_result of
        (is_python, is_bash, result) \<Rightarrow>
          fst (check_syntax e script_path content is_python is_bash result))"

definition syntax_error_recorded :: "env \<Rightarrow> path \<Rightarrow> string \<Rightarrow> bool" where
  \<comment> \<open>step 5 records an error for this content: the Python parser or \<open>bash -n\<close> rejects it\<close>
  "syntax_error_recorded e script_path content =
     (case check_shebang script_path (split_on (CHR 0x0A) content) new_result of
        (is_python, is_bash, result) \<Rightarrow>
          errors (snd (check_syntax e script_path content is_python is_bash new_result)) \<noteq> [])"

definition prepend_findings ::
  "string list \<Rightarrow> string list \<Rightarrow> string list \<Rightarrow> ValidationResult \<Rightarrow> ValidationResult" where
  \<comment> \<open>a report with earlier findings put in front of its own\<close>
  "prepend_findings E W P r =
     r\<lparr>errors := E @ errors r, warnings := W @ warnings r, passed := P @ passed r\<rparr>"

definition placeholder_forms :: "string list" where
  \<comment> \<open>the three textual forms of the project-root placeholder\<close>
  "placeholder_forms =
     [[dquote] @ placeholder @ [dquote], [squote] @ placeholder @ [squote], placeholder]"

text \<open>
  A settings document around one command string: the hook descriptor that holds the
  command, the config that holds the descriptor, and the document that holds the config
  under an event, each with arbitrary items before and after.
\<close>

definition hook_with_command :: "(string \<times> json) list \<Rightarrow> (string \<times> json) list \<Rightarrow> string \<Rightarrow> json" where
  "hook_with_command h1 h2 command = JObj (h1 @ (''command'', JStr command) # h2)"

definition config_with_hook ::
  "(string \<times> json) list \<Rightarrow> (string \<times> json) list \<Rightarrow> json list \<Rightarrow> json list \<Rightarrow> json \<Rightarrow> json" where
  "config_with_hook c1 c2 hs1 hs2 hook = JObj (c1 @ (''hooks'', JArr (hs1 @ hook # hs2)) # c2)"

definition settings_with_config ::
  "(string \<times> json) list \<Rightarrow> (string \<times> json) list \<Rightarrow> (string \<times> json) list
     \<Rightarrow> (string \<times> json) list \<Rightarrow> string \<Rightarrow> json list \<Rightarrow> json list \<Rightarrow> json \<Rightarrow> json" where
  "settings_with_config t1 t2 ev1 ev2 event cs1 cs2 config =
     JObj (t1 @ (''hooks'', JObj (ev1 @ (event, JArr (cs1 @ config # cs2)) # ev2)) # t2)"


section \<open>Example runs\<close>

text \<open>
  A project at \<open>/proj\<close> with no settings file at any level; every script exists, is
  executable and empty, every check of a script succeeds, and every path resolves to
  itself. The examples below change the answers of this environment for the inputs they
  use; a run reads the answers for its own inputs only.
\<close>

definition ex_project :: path where
  "ex_project = mk_path ''/proj''"

definition ex_env :: env where
  "ex_env =
     \<lparr>path_exists = (\<lambda>p. True), access_x = (\<lambda>p. True), read_text = (\<lambda>p. ReadOk []),
      ast_parse = (\<lambda>s. ParseOk), bash_n = (\<lambda>p. BashCompleted 0 []),
      run_script = (\<lambda>interpreter p payload project_dir. RunCompleted 0 [] []),
      json_loads = (\<lambda>s. JsonDecodeError), settings_file = (\<lambda>p. Missing),
      resolve = (\<lambda>p. Resolved p), home = mk_path ''/home/dev''\<rparr>"

definition ex_guard_sh :: path where
  "ex_guard_sh = mk_path ''/proj/.claude/hooks/guard.sh''"

definition ex_check_py :: path where
  "ex_check_py = mk_path ''/proj/.claude/hooks/check.py''"

definition bad_bash_text :: string where
  \<comment> \<open>a shell script that \<open>bash -n\<close> rejects\<close>
  "bad_bash_text = ''#!/bin/bash'' @ [CHR 0x0A] @ ''INPUT=$(cat)'' @ [CHR 0x0A] @ ''if then''"

definition env_bad_bash :: env where
  "env_bad_bash =
     ex_env\<lparr>read_text := (\<lambda>p. ReadOk bad_bash_text),
             bash_n := (\<lambda>p. BashCompleted 2 ''line 3: syntax error''),
             run_script := (\<lambda>interpreter p payload project_dir.
                              RunCompleted 2 [] ''line 3: syntax error'')\<rparr>"

definition no_shebang_text :: string where
  \<comment> \<open>a Python hook with no first line \<open>#!\<close>\<close>
  "no_shebang_text =
     ''import json, sys'' @ [CHR 0x0A] @ ''tool_name = json.load(sys.stdin)'' @ [CHR 0x0A]
       @ ''sys.exit(2)''"

definition env_no_shebang :: env where
  "env_no_shebang =
     ex_env\<lparr>read_text := (\<lambda>p. ReadOk no_shebang_text),
             run_script := (\<lambda>interpreter p payload project_dir. RunCompleted 2 [] [])\<rparr>"

definition stop_hook_text :: string where
  \<comment> \<open>a Python hook tagged for the Stop event that never reads \<open>stop_hook_active\<close>\<close>
  "stop_hook_text =
     ''#!/usr/bin/env python3'' @ [CHR 0x0A] @ ''# Event: Stop'' @ [CHR 0x0A]
       @ ''import sys'' @ [CHR 0x0A] @ ''sys.exit(0)''"

definition env_stop_hook :: env where
  "env_stop_hook = ex_env\<lparr>read_text := (\<lambda>p. ReadOk stop_hook_text)\<rparr>"

definition broken_stop_hook_text :: string where
  \<comment> \<open>the same hook with a fourth line that is not Python: \<open>ast.parse\<close> raises SyntaxError
      with the message "invalid syntax" at line 4\<close>
  "broken_stop_hook_text =
     ''#!/usr/bin/env python3'' @ [CHR 0x0A] @ ''# Event: Stop'' @ [CHR 0x0A]
       @ ''import sys'' @ [CHR 0x0A] @ ''x = = 1'' @ [CHR 0x0A] @ ''sys.exit(0)''"

definition env_stop_hook_broken :: env where
  "env_stop_hook_broken =
     ex_env\<lparr>read_text := (\<lambda>p. ReadOk broken_stop_hook_text),
             ast_parse := (\<lambda>s. if s = broken_stop_hook_text
                                then ParseSyntaxError ''invalid syntax'' (Some 4) else ParseOk)\<rparr>"

definition deep_output :: string where
  \<comment> \<open>an output of 2000 opening brackets, on which \<open>json.loads\<close> raises RecursionError\<close>
  "deep_output = replicate 2000 (CHR ''['')"

definition env_deep_output :: env where
  "env_deep_output =
     ex_env\<lparr>json_loads := (\<lambda>s. if s = deep_output
         then JsonRaises ''maximum recursion depth exceeded while decoding a JSON array''
         else JsonDecodeError)\<rparr>"

definition settings_quoted_name :: json where
  \<comment> \<open>settings whose command names the script with quotes inside the filename\<close>
  "settings_quoted_name =
     JObj [(''hooks'', JObj [(''PreToolUse'', JArr [JObj
        [(''matcher'', JStr ''Write''),
         (''hooks'', JArr [JObj
            [(''type'', JStr ''command''),
             (''command'', JStr (''python3 /proj/.claude/hooks/check'' @ [dquote] @ ''.py''
                                  @ [dquote]))]])]])])]"

definition env_quoted_name :: env where
  "env_quoted_name =
     ex_env\<lparr>settings_file :=
       (\<lambda>p. if p = mk_path ''/proj/.claude/settings.json'' then Loaded settings_quoted_name
            else Missing)\<rparr>"

definition settings_other_path :: json where
  \<comment> \<open>settings that run a script of the same name at another place\<close>
  "settings_other_path =
     JObj [(''hooks'', JObj [(''PreToolUse'', JArr [JObj
        [(''matcher'', JStr ''Write''),
         (''hooks'', JArr [JObj [(''type'', JStr ''command''),
                                 (''command'', JStr ''python3 /elsewhere/check.py'')]])]])])]"

definition env_other_path :: env where
  "env_other_path =
     ex_env\<lparr>settings_file :=
       (\<lambda>p. if p = mk_path ''/proj/.claude/settings.json'' then Loaded settings_other_path
            else Missing)\<rparr>"

definition settings_unknown_event :: json where
  \<comment> \<open>settings with a misspelt event name between two events of the registry\<close>
  "settings_unknown_event =
     JObj [(''hooks'', JObj [(''Stop'', JArr []), (''PreToolUze'', JInt 7),
                             (''PreCompact'', JArr [])])]"

definition env_unknown_event :: env where
  "env_unknown_event = ex_env\<lparr>settings_file := (\<lambda>p. Loaded settings_unknown_event)\<rparr>"

definition settings_one_command :: "string \<Rightarrow> json" where
  \<comment> \<open>settings with a single command, under PreToolUse\<close>
  "settings_one_command command =
     settings_with_config [] [] [] [] ''PreToolUse'' [] []
       (config_with_hook [] [] [] [] (hook_with_command [] [] command))"


section \<open>Auxiliary lemmas\<close>

subsection \<open>Reports\<close>

lemma str_nat_digit: "n < 10 \<Longrightarrow> str_nat n = [''0123456789'' ! n]"
  by (simp add: str_nat.simps)

lemma error_simps [simp]:
  "errors (error r m) = errors r @ [cross_mark @ m]"
  "warnings (error r m) = warnings r"
  "passed (error r m) = passed r"
  "installation (error r m) = installation r"
  by (simp_all add: error_def)

lemma warn_simps [simp]:
  "errors (warn r m) = errors r"
  "warnings (warn r m) = warnings r @ [warning_mark @ m]"
  "passed (warn r m) = passed r"
  "installation (warn r m) = installation r"
  by (simp_all add: warn_def)

lemma ok_simps [simp]:
  "errors (ok r m) = errors r"
  "warnings (ok r m) = warnings r"
  "passed (ok r m) = passed r @ [check_mark @ m]"
  "installation (ok r m) = installation r"
  by (simp_all add: ok_def)

lemma info_simps [simp]:
  "errors (info r m) = errors r"
  "warnings (info r m) = warnings r"
  "passed (info r m) = passed r @ [info_mark @ m]"
  "installation (info r m) = installation r"
  by (simp_all add: info_def)

lemma new_result_simps [simp]:
  "errors new_result = []" "warnings new_result = []" "passed new_result = []"
  "installation new_result = None"
  by (simp_all add: new_result_def)

lemma split_on_not_Nil [simp]: "split_on sep s \<noteq> []"
  by (induction s) (auto split: list.splits)

lemma prefix_first_line:
  "sep \<notin> set p \<Longrightarrow> prefix p (hd (split_on sep s)) = prefix p s"
proof (induction s arbitrary: p)
  case Nil
  then show ?case by simp
next
  case (Cons c cs)
  show ?case
  proof (cases p)
    case Nil
    then show ?thesis by simp
  next
    case (Cons a p')
    with Cons.prems have a: "a \<noteq> sep" and p': "sep \<notin> set p'" by auto
    obtain l ls where l: "split_on sep cs = l # ls"
      by (cases "split_on sep cs") auto
    then have "hd (split_on sep cs) = l" by simp
    with Cons.IH [OF p'] have "prefix p' l = prefix p' cs" by simp
    with Cons a l show ?thesis by auto
  qed
qed

lemma first_line_shebang:
  "split_on (CHR 0x0A) content = line0 # rest \<Longrightarrow>
   startswith line0 ''#!'' = startswith content ''#!''"
  using prefix_first_line [of "CHR 0x0A" "''#!''" content]
  by (simp add: startswith_def)

lemma check_shebang_missing:
  "\<not> startswith content ''#!'' \<Longrightarrow>
   check_shebang script_path (split_on (CHR 0x0A) content) r =
     (False, False,
      error r ''Missing shebang (should start with #!/usr/bin/env python3 or #!/bin/bash)'')"
  by (auto simp: check_shebang_def first_line_shebang split: list.splits)

subsection \<open>The steps of validate_hook_script\<close>

lemma match_parts_exists:
  "match_parts e hook_name hook_abs parts \<longleftrightarrow>
     (\<exists>part \<in> set parts. str_in hook_name part \<and>
        (resolve e (mk_path part) = Resolved hook_abs \<or> endswith part hook_name))"
  by (induction parts) auto

lemma check_shebang_flags:
  "fst (check_shebang sp ls r) = fst (check_shebang sp ls r0)"
  "fst (snd (check_shebang sp ls r)) = fst (snd (check_shebang sp ls r0))"
  by (simp_all add: check_shebang_def split: list.splits)

lemma check_shebang_count:
  "count_list (errors (snd (snd (check_shebang sp ls r)))) stop_guard_error
     = count_list (errors r) stop_guard_error"
  by (simp add: check_shebang_def stop_guard_error_def split: list.splits)

lemma check_syntax_flag:
  "fst (check_syntax e sp c a b r) = fst (check_syntax e sp c a b r0)"
  by (simp add: check_syntax_def split: parse_outcome.splits bash_outcome.splits)

lemma check_syntax_count:
  "count_list (errors (snd (check_syntax e sp c a b r))) stop_guard_error
     = count_list (errors r) stop_guard_error"
  by (simp add: check_syntax_def stop_guard_error_def
      split: parse_outcome.splits bash_outcome.splits)

lemma syntax_check_returns_recorded:
  "syntax_check_returns e sp c \<Longrightarrow> syntax_error_recorded e sp c"
  by (auto simp: syntax_check_returns_def syntax_error_recorded_def check_syntax_def error_def
      split: prod.splits if_splits parse_outcome.splits bash_outcome.splits)

lemma check_json_input_errors [simp]:
  "errors (check_json_input c a b r) = errors r"
  by (simp add: check_json_input_def)

lemma check_exit_codes_errors [simp]:
  "errors (check_exit_codes c a b r) = errors r"
  by (simp add: check_exit_codes_def Let_def)

lemma check_event_errors:
  "errors (check_event ev c r) =
     errors r @ (if ev \<in> {Some ''Stop'', Some ''SubagentStop''} \<and> \<not> str_in ''stop_hook_active'' c
                 then [stop_guard_error] else [])"
  by (auto simp: check_event_def Let_def stop_guard_error_def split: option.splits)

lemma report_run_count:
  "count_list (errors (report_run e out r)) stop_guard_error
     = count_list (errors r) stop_guard_error"
  by (simp add: report_run_def Let_def stop_guard_error_def
      split: run_outcome.splits json_outcome.splits)

lemma runtime_test_count:
  "count_list (errors (runtime_test e sp pd ev a b r)) stop_guard_error
     = count_list (errors r) stop_guard_error"
  by (simp add: runtime_test_def Let_def report_run_count split: option.splits)

lemma syntax_check_returns_iff:
  "syntax_check_returns e sp content \<longleftrightarrow>
     fst (check_shebang sp (split_on (CHR 0x0A) content) new_result)
     \<and> ast_parse e content \<noteq> ParseOk"
  by (auto simp: syntax_check_returns_def check_syntax_def
      split: prod.splits parse_outcome.splits bash_outcome.splits)

lemma prepend_findings_simps [simp]:
  "errors (prepend_findings E W P r) = E @ errors r"
  "warnings (prepend_findings E W P r) = W @ warnings r"
  "passed (prepend_findings E W P r) = P @ passed r"
  "installation (prepend_findings E W P r) = installation r"
  by (simp_all add: prepend_findings_def)

lemma prepend_findings_ops:
  "error (prepend_findings E W P r) m = prepend_findings E W P (error r m)"
  "warn (prepend_findings E W P r) m = prepend_findings E W P (warn r m)"
  "ok (prepend_findings E W P r) m = prepend_findings E W P (ok r m)"
  "info (prepend_findings E W P r) m = prepend_findings E W P (info r m)"
  "(prepend_findings E W P r)\<lparr>installation := i\<rparr> = prepend_findings E W P (r\<lparr>installation := i\<rparr>)"
  by (simp_all add: prepend_findings_def error_def warn_def ok_def info_def)

lemma check_shebang_prepend:
  "check_shebang sp ls (prepend_findings E W P r) =
     (case check_shebang sp ls r of (a, b, r') \<Rightarrow> (a, b, prepend_findings E W P r'))"
  by (simp add: check_shebang_def prepend_findings_ops split: list.splits)

lemma check_syntax_prepend:
  "check_syntax e sp c a b (prepend_findings E W P r) =
     (case check_syntax e sp c a b r of (stop, r') \<Rightarrow> (stop, prepend_findings E W P r'))"
  by (simp add: check_syntax_def prepend_findings_ops
      split: parse_outcome.splits bash_outcome.splits)

lemma check_json_input_prepend:
  "check_json_input c a b (prepend_findings E W P r)
     = prepend_findings E W P (check_json_input c a b r)"
  by (simp add: check_json_input_def prepend_findings_ops)

lemma check_event_prepend:
  "check_event ev c (prepend_findings E W P r) = prepend_findings E W P (check_event ev c r)"
  by (simp add: check_event_def Let_def prepend_findings_ops split: option.splits)

lemma check_exit_codes_prepend:
  "check_exit_codes c a b (prepend_findings E W P r)
     = prepend_findings E W P (check_exit_codes c a b r)"
  by (simp add: check_exit_codes_def Let_def prepend_findings_ops)

lemma report_run_prepend:
  "report_run e out (prepend_findings E W P r) = prepend_findings E W P (report_run e out r)"
  by (simp add: report_run_def Let_def prepend_findings_ops
      split: run_outcome.splits json_outcome.splits)

lemma runtime_test_prepend:
  "runtime_test e sp pd ev a b (prepend_findings E W P r)
     = prepend_findings E W P (runtime_test e sp pd ev a b r)"
  by (simp add: runtime_test_def Let_def report_run_prepend split: option.splits)

lemma validate_content_prepend:
  "validate_content e sp pd hint c (prepend_findings E W P r)
     = map_option (prepend_findings E W P) (validate_content e sp pd hint c r)"
  by (simp add: validate_content_def Let_def check_shebang_prepend check_syntax_prepend
      check_json_input_prepend check_event_prepend check_exit_codes_prepend
      runtime_test_prepend prepend_findings_ops
      split: prod.splits bool.splits option.splits)

lemma python_syntax_error_returns:
  assumes "path_exists e script_path"
    and "read_text e script_path = ReadOk content"
    and "fst (check_shebang script_path (split_on (CHR 0x0A) content) new_result)"
    and "ast_parse e content = ParseSyntaxError msg lineno"
  shows "\<exists>r. validate_hook_script e script_path project_dir event_hint = Some r
      \<and> \<not> success r \<and> installation r = None
      \<and> last (errors r) = cross_mark @ ''Python syntax error: '' @ msg @ '' (line ''
            @ (case lineno of None \<Rightarrow> ''None'' | Some n \<Rightarrow> str_int n) @ '')''
      \<and> set (passed r) \<subseteq> {check_mark @ ''Script exists: '' @ path_name script_path,
            check_mark @ ''Script is executable'', check_mark @ ''Valid Python shebang''}"
proof -
  define r2 where "r2 =
     (if \<not> access_x e script_path
      then error (ok new_result (''Script exists: '' @ path_name script_path))
             ''Script is not executable (run: chmod +x)''
      else ok (ok new_result (''Script exists: '' @ path_name script_path))
             ''Script is executable'')"
  obtain a b r4 where sb: "check_shebang script_path (split_on (CHR 0x0A) content) r2 = (a, b, r4)"
    by (cases "check_shebang script_path (split_on (CHR 0x0A) content) r2") auto
  have a: "a"
    using check_shebang_flags(1) [of script_path "split_on (CHR 0x0A) content" r2 new_result]
      sb assms(3) by simp
  have p4: "set (passed r4) \<subseteq> {check_mark @ ''Script exists: '' @ path_name script_path,
      check_mark @ ''Script is executable'', check_mark @ ''Valid Python shebang''}"
    using sb a by (auto simp: check_shebang_def r2_def split: list.splits if_splits)
  have i4: "installation r4 = None"
    using sb by (auto simp: check_shebang_def r2_def split: list.splits if_splits)
  have "validate_hook_script e script_path project_dir event_hint =
      validate_content e script_path project_dir event_hint content r2"
    using assms(1,2)
    by (cases "access_x e script_path") (simp_all add: validate_hook_script_def r2_def Let_def)
  also have "\<dots> = Some (error r4 (''Python syntax error: '' @ msg @ '' (line ''
            @ (case lineno of None \<Rightarrow> ''None'' | Some n \<Rightarrow> str_int n) @ '')''))"
    using sb a assms(4) by (simp add: validate_content_def check_syntax_def)
  finally show ?thesis using p4 i4 by (simp add: success_def)
qed

text \<open>
  The installation is read from the settings files and from path resolution alone; in
  particular, none of these steps reads the execute bit.
\<close>

lemma match_parts_env:
  "resolve e1 = resolve e2 \<Longrightarrow> match_parts e1 hn ha parts = match_parts e2 hn ha parts"
  by (induction parts) simp_all

lemma scan_hook_env:
  "resolve e1 = resolve e2 \<Longrightarrow> scan_hook e1 hn ha pd ev m h st = scan_hook e2 hn ha pd ev m h st"
  by (simp add: scan_hook_def match_parts_env [of e1 e2]
      cong: option.case_cong json.case_cong if_cong)

lemma scan_hooks_env:
  "resolve e1 = resolve e2 \<Longrightarrow>
   scan_hooks e1 hn ha pd ev m hs st = scan_hooks e2 hn ha pd ev m hs st"
  by (induction hs arbitrary: st) (simp_all add: scan_hook_env [of e1 e2] split: option.splits)

lemma scan_config_env:
  "resolve e1 = resolve e2 \<Longrightarrow>
   scan_config e1 hn ha pd ev c st = scan_config e2 hn ha pd ev c st"
  by (simp add: scan_config_def scan_hooks_env [of e1 e2] cong: option.case_cong)

lemma scan_configs_env:
  "resolve e1 = resolve e2 \<Longrightarrow>
   scan_configs e1 hn ha pd ev cs st = scan_configs e2 hn ha pd ev cs st"
  by (induction cs arbitrary: st) (simp_all add: scan_config_env [of e1 e2] split: option.splits)

lemma scan_events_env:
  "resolve e1 = resolve e2 \<Longrightarrow>
   scan_events e1 hn ha pd its st = scan_events e2 hn ha pd its st"
  by (induction its arbitrary: st) (auto simp: scan_configs_env [of e1 e2] split: option.splits)

lemma find_hook_in_settings_env:
  "resolve e1 = resolve e2 \<Longrightarrow> settings_file e1 p = settings_file e2 p \<Longrightarrow>
   find_hook_in_settings e1 p hs pd = find_hook_in_settings e2 p hs pd"
  by (simp add: find_hook_in_settings_def scan_events_env [of e1 e2]
      cong: option.case_cong file_state.case_cong resolve_outcome.case_cong if_cong)

lemma check_installation_status_env:
  "home e1 = home e2 \<Longrightarrow>
   (\<And>p. find_hook_in_settings e1 p hs pd = find_hook_in_settings e2 p hs pd) \<Longrightarrow>
   check_installation_status e1 hs pd = check_installation_status e2 hs pd"
  by (simp add: check_installation_status_def get_settings_paths_def
      cong: option.case_cong prod.case_cong)

lemma check_installation_status_access [simp]:
  "check_installation_status (e\<lparr>access_x := f\<rparr>) hs pd = check_installation_status e hs pd"
proof (rule check_installation_status_env)
  show "home (e\<lparr>access_x := f\<rparr>) = home e" by simp
  show "find_hook_in_settings (e\<lparr>access_x := f\<rparr>) p hs pd = find_hook_in_settings e p hs pd"
    for p
    by (rule find_hook_in_settings_env) simp_all
qed

lemma validate_content_access [simp]:
  "validate_content (e\<lparr>access_x := f\<rparr>) sp pd hint c r = validate_content e sp pd hint c r"
  by (simp add: validate_content_def check_syntax_def runtime_test_def report_run_def
      cong: option.case_cong prod.case_cong if_cong bool.case_cong run_outcome.case_cong
        json_outcome.case_cong)

subsection \<open>validate_settings\<close>

lemma validate_hook_prepend:
  "validate_hook e pd ev sch i j h (prepend_findings E W P r)
     = map_option (prepend_findings E W P) (validate_hook e pd ev sch i j h r)"
  by (simp add: validate_hook_def Let_def prepend_findings_ops
      split: option.splits json.splits)

lemma validate_hooks_prepend:
  "validate_hooks e pd ev sch i j hs (prepend_findings E W P r)
     = map_option (prepend_findings E W P) (validate_hooks e pd ev sch i j hs r)"
  by (induction hs arbitrary: r j) (auto simp: validate_hook_prepend split: option.splits)

lemma prepend_findings_if:
  "(if b then prepend_findings E W P x else prepend_findings E W P y)
     = prepend_findings E W P (if b then x else y)"
  by simp

lemma validate_config_prepend:
  "validate_config e pd ev sch i c (prepend_findings E W P r)
     = map_option (prepend_findings E W P) (validate_config e pd ev sch i c r)"
  by (cases c)
     (simp_all add: validate_config_def Let_def prepend_findings_ops prepend_findings_if
        validate_hooks_prepend split: option.splits split del: if_split cong: if_cong)

lemma validate_configs_prepend:
  "validate_configs e pd ev sch i cs (prepend_findings E W P r)
     = map_option (prepend_findings E W P) (validate_configs e pd ev sch i cs r)"
  by (induction cs arbitrary: r i) (auto simp: validate_config_prepend split: option.splits)

lemma validate_event_prepend:
  "validate_event e pd ev c (prepend_findings E W P r)
     = map_option (prepend_findings E W P) (validate_event e pd ev c r)"
  by (simp add: validate_event_def prepend_findings_ops validate_configs_prepend
      split: option.splits)

lemma validate_events_prepend:
  "validate_events e pd its (prepend_findings E W P r)
     = map_option (prepend_findings E W P) (validate_events e pd its r)"
  by (induction its arbitrary: r) (auto simp: validate_event_prepend split: option.splits)

lemma validate_events_append:
  "validate_events e pd (xs @ ys) r =
     (case validate_events e pd xs r of None \<Rightarrow> None | Some r1 \<Rightarrow> validate_events e pd ys r1)"
  by (induction xs arbitrary: r) (auto split: option.splits)

lemma validate_event_unknown:
  "\<not> in_EVENT_SCHEMAS event \<Longrightarrow>
   validate_event e pd event configs r = Some (error r (''Unknown event type: '' @ event))"
  by (simp add: validate_event_def)

lemma error_after_prepend:
  "(prepend_findings E W P d)\<lparr>errors := E @ [m] @ drop (length E) (errors (prepend_findings E W P d))\<rparr>
     = prepend_findings (E @ [m]) W P d"
  by (cases d) (simp add: prepend_findings_def)

lemma validate_events_after_error:
  "validate_events e pd ys (error r1 m) =
     map_option (\<lambda>r2. r2\<lparr>errors := errors r1 @ [cross_mark @ m]
                                     @ drop (length (errors r1)) (errors r2)\<rparr>)
       (validate_events e pd ys r1)"
proof -
  define r0 where "r0 = r1\<lparr>errors := [], warnings := [], passed := []\<rparr>"
  have r1: "r1 = prepend_findings (errors r1) (warnings r1) (passed r1) r0"
    by (simp add: r0_def prepend_findings_def)
  have r1e: "error r1 m = prepend_findings (errors r1 @ [cross_mark @ m]) (warnings r1) (passed r1) r0"
    by (simp add: r0_def prepend_findings_def error_def)
  have a: "validate_events e pd ys (error r1 m) =
      map_option (prepend_findings (errors r1 @ [cross_mark @ m]) (warnings r1) (passed r1))
        (validate_events e pd ys r0)"
    by (simp only: r1e validate_events_prepend)
  have b: "validate_events e pd ys r1 =
      map_option (prepend_findings (errors r1) (warnings r1) (passed r1))
        (validate_events e pd ys r0)"
    using validate_events_prepend [of e pd ys "errors r1" "warnings r1" "passed r1" r0] r1
    by simp
  show ?thesis
    unfolding a b
    by (cases "validate_events e pd ys r0") (simp_all add: error_after_prepend del: append.simps)
qed

subsection \<open>Text replacement\<close>

lemma replace_str_Nil [simp]: "old \<noteq> [] \<Longrightarrow> replace_str old new [] = []"
  by (simp add: replace_str.simps)

lemma replace_str_Cons:
  "old \<noteq> [] \<Longrightarrow> replace_str old new (c # cs) =
     (if prefix old (c # cs) then new @ replace_str old new (drop (length old) (c # cs))
      else c # replace_str old new cs)"
  by (subst replace_str.simps) simp

lemma prefix_set_mono: "prefix xs ys \<Longrightarrow> set xs \<subseteq> set ys"
  by (auto simp: prefix_def)

lemma replace_str_absent:
  "d \<in> set old \<Longrightarrow> d \<notin> set s \<Longrightarrow> replace_str old new s = s"
proof (induction s)
  case Nil
  then have "old \<noteq> []" by auto
  then show ?case by simp
next
  case (Cons c cs)
  then have "\<not> prefix old (c # cs)"
    using prefix_set_mono [of old "c # cs"] by auto
  moreover from Cons have "old \<noteq> []" by auto
  ultimately show ?case using Cons by (simp add: replace_str_Cons)
qed

lemma replace_str_at:
  assumes "d \<notin> set a" "d \<notin> set pre"
  shows "replace_str (a @ d # b) new (pre @ (a @ d # b) @ post)
           = pre @ new @ replace_str (a @ d # b) new post"
  using assms(2)
proof (induction pre)
  case Nil
  show ?case
    by (cases a) (simp_all add: replace_str_Cons)
next
  case (Cons c pre')
  let ?old = "a @ d # b"
  let ?s = "(c # pre') @ ?old @ post"
  have "\<not> prefix ?old ?s"
  proof
    assume "prefix ?old ?s"
    then have "?old ! length a = ?s ! length a"
      by (auto simp: prefix_def nth_append)
    moreover have "?old ! length a = d" by simp
    moreover have "?s ! length a \<in> set ((c # pre') @ a)"
    proof -
      have "?s = ((c # pre') @ a) @ (d # b @ post)" by simp
      moreover have "length a < length ((c # pre') @ a)" by simp
      ultimately have "?s ! length a = ((c # pre') @ a) ! length a"
        by (metis nth_append)
      then show ?thesis
        by (metis \<open>length a < length ((c # pre') @ a)\<close> nth_mem)
    qed
    ultimately show False using assms(1) Cons.prems by auto
  qed
  then show ?case using Cons by (simp add: replace_str_Cons)
qed

lemma replace_str_other_quote:
  assumes "q \<noteq> d" "d \<notin> set p" "d \<notin> set pre" "d \<notin> set post"
    and "\<not> (pre \<noteq> [] \<and> last pre = q \<and> post \<noteq> [] \<and> hd post = q)"
  shows "replace_str (q # d # p @ [q]) new (pre @ (d # p) @ post) = pre @ (d # p) @ post"
  using assms(3,5)
proof (induction pre)
  case Nil
  have "replace_str (q # d # p @ [q]) new (p @ post) = p @ post"
    using assms by (intro replace_str_absent [of d]) auto
  then show ?case using assms(1) by (simp add: replace_str_Cons)
next
  case (Cons c pre')
  have "\<not> prefix (q # d # p @ [q]) ((c # pre') @ (d # p) @ post)"
  proof (cases pre')
    case Nil
    with Cons.prems(2) have "\<not> (c = q \<and> post \<noteq> [] \<and> hd post = q)" by simp
    then show ?thesis using Nil by (cases post) auto
  next
    case (Cons c' pre'')
    with Cons.prems(1) \<open>d \<notin> set (c # pre')\<close> show ?thesis by auto
  qed
  moreover have "replace_str (q # d # p @ [q]) new (pre' @ (d # p) @ post) = pre' @ (d # p) @ post"
    using Cons by (cases pre') auto
  ultimately show ?case by (auto simp: replace_str_Cons)
qed


subsection \<open>The placeholder and its place in a settings document\<close>

lemma placeholder_Cons: "placeholder = CHR ''$'' # ''CLAUDE_PROJECT_DIR''"
  by (simp add: placeholder_def)

lemma expand_command_double:
  assumes "CHR ''$'' \<notin> set pre" "CHR ''$'' \<notin> set post" "CHR ''$'' \<notin> set (path_str pd)"
  shows "expand_command pd (pre @ ([dquote] @ placeholder @ [dquote]) @ post)
           = pre @ path_str pd @ post"
proof -
  let ?Q = "[dquote] @ CHR ''$'' # (''CLAUDE_PROJECT_DIR'' @ [dquote])"
  have "replace_str ?Q (path_str pd) (pre @ ?Q @ post)
          = pre @ path_str pd @ replace_str ?Q (path_str pd) post"
    using assms(1) by (intro replace_str_at) (simp_all add: dquote_def)
  moreover have "replace_str ?Q (path_str pd) post = post"
    using assms(2) by (intro replace_str_absent [of "CHR ''$''"]) simp_all
  ultimately have 1: "replace_str ([dquote] @ placeholder @ [dquote]) (path_str pd)
      (pre @ ([dquote] @ placeholder @ [dquote]) @ post) = pre @ path_str pd @ post"
    by (simp add: placeholder_Cons)
  have 2: "replace_str ([squote] @ placeholder @ [squote]) (path_str pd) (pre @ path_str pd @ post)
      = pre @ path_str pd @ post"
    using assms by (intro replace_str_absent [of "CHR ''$''"]) (simp_all add: placeholder_Cons)
  have 3: "replace_str placeholder (path_str pd) (pre @ path_str pd @ post)
      = pre @ path_str pd @ post"
    using assms by (intro replace_str_absent [of "CHR ''$''"]) (simp_all add: placeholder_Cons)
  show ?thesis by (simp only: expand_command_def 1 2 3)
qed

lemma expand_command_single:
  assumes "CHR ''$'' \<notin> set pre" "CHR ''$'' \<notin> set post" "CHR ''$'' \<notin> set (path_str pd)"
  shows "expand_command pd (pre @ ([squote] @ placeholder @ [squote]) @ post)
           = pre @ path_str pd @ post"
proof -
  let ?S = "[squote] @ CHR ''$'' # (''CLAUDE_PROJECT_DIR'' @ [squote])"
  have "replace_str (dquote # CHR ''$'' # ''CLAUDE_PROJECT_DIR'' @ [dquote]) (path_str pd)
          ((pre @ [squote]) @ (CHR ''$'' # ''CLAUDE_PROJECT_DIR'') @ (squote # post))
        = (pre @ [squote]) @ (CHR ''$'' # ''CLAUDE_PROJECT_DIR'') @ (squote # post)"
    using assms(1,2)
    by (intro replace_str_other_quote) (simp_all add: dquote_def squote_def)
  then have 1: "replace_str ([dquote] @ placeholder @ [dquote]) (path_str pd)
      (pre @ ([squote] @ placeholder @ [squote]) @ post)
        = pre @ ([squote] @ placeholder @ [squote]) @ post"
    by (simp add: placeholder_Cons)
  have "replace_str ?S (path_str pd) (pre @ ?S @ post)
          = pre @ path_str pd @ replace_str ?S (path_str pd) post"
    using assms(1) by (intro replace_str_at) (simp_all add: squote_def)
  moreover have "replace_str ?S (path_str pd) post = post"
    using assms(2) by (intro replace_str_absent [of "CHR ''$''"]) simp_all
  ultimately have 2: "replace_str ([squote] @ placeholder @ [squote]) (path_str pd)
      (pre @ ([squote] @ placeholder @ [squote]) @ post) = pre @ path_str pd @ post"
    by (simp add: placeholder_Cons)
  have 3: "replace_str placeholder (path_str pd) (pre @ path_str pd @ post)
      = pre @ path_str pd @ post"
    using assms by (intro replace_str_absent [of "CHR ''$''"]) (simp_all add: placeholder_Cons)
  show ?thesis by (simp only: expand_command_def 1 2 3)
qed

lemma expand_command_bare:
  assumes "CHR ''$'' \<notin> set pre" "CHR ''$'' \<notin> set post" "CHR ''$'' \<notin> set (path_str pd)"
    and "\<not> (pre \<noteq> [] \<and> last pre = dquote \<and> post \<noteq> [] \<and> hd post = dquote)"
    and "\<not> (pre \<noteq> [] \<and> last pre = squote \<and> post \<noteq> [] \<and> hd post = squote)"
  shows "expand_command pd (pre @ placeholder @ post) = pre @ path_str pd @ post"
proof -
  have "replace_str (dquote # CHR ''$'' # ''CLAUDE_PROJECT_DIR'' @ [dquote]) (path_str pd)
          (pre @ (CHR ''$'' # ''CLAUDE_PROJECT_DIR'') @ post)
        = pre @ (CHR ''$'' # ''CLAUDE_PROJECT_DIR'') @ post"
    using assms(1,2,4) by (intro replace_str_other_quote) (simp_all add: dquote_def)
  then have 1: "replace_str ([dquote] @ placeholder @ [dquote]) (path_str pd)
      (pre @ placeholder @ post) = pre @ placeholder @ post"
    by (simp add: placeholder_Cons)
  have "replace_str (squote # CHR ''$'' # ''CLAUDE_PROJECT_DIR'' @ [squote]) (path_str pd)
          (pre @ (CHR ''$'' # ''CLAUDE_PROJECT_DIR'') @ post)
        = pre @ (CHR ''$'' # ''CLAUDE_PROJECT_DIR'') @ post"
    using assms(1,2,5) by (intro replace_str_other_quote) (simp_all add: squote_def)
  then have 2: "replace_str ([squote] @ placeholder @ [squote]) (path_str pd)
      (pre @ placeholder @ post) = pre @ placeholder @ post"
    by (simp add: placeholder_Cons)
  have "replace_str ([] @ CHR ''$'' # ''CLAUDE_PROJECT_DIR'') (path_str pd)
          (pre @ ([] @ CHR ''$'' # ''CLAUDE_PROJECT_DIR'') @ post)
        = pre @ path_str pd @ replace_str ([] @ CHR ''$'' # ''CLAUDE_PROJECT_DIR'') (path_str pd) post"
    using assms(1) by (intro replace_str_at) simp_all
  moreover have "replace_str ([] @ CHR ''$'' # ''CLAUDE_PROJECT_DIR'') (path_str pd) post = post"
    using assms(2) by (intro replace_str_absent [of "CHR ''$''"]) simp_all
  ultimately have 3: "replace_str placeholder (path_str pd) (pre @ placeholder @ post)
      = pre @ path_str pd @ post"
    by (simp add: placeholder_Cons)
  show ?thesis by (simp only: expand_command_def 1 2 3)
qed

lemma expand_command_form:
  assumes "CHR ''$'' \<notin> set pre" "CHR ''$'' \<notin> set post" "CHR ''$'' \<notin> set (path_str pd)"
    and "\<not> (pre \<noteq> [] \<and> last pre = dquote \<and> post \<noteq> [] \<and> hd post = dquote)"
    and "\<not> (pre \<noteq> [] \<and> last pre = squote \<and> post \<noteq> [] \<and> hd post = squote)"
    and "form \<in> set placeholder_forms"
  shows "expand_command pd (pre @ form @ post) = pre @ path_str pd @ post"
  using assms expand_command_double [of pre post pd] expand_command_single [of pre post pd]
    expand_command_bare [of pre post pd]
  by (auto simp: placeholder_forms_def)

lemma placeholder_form_not_Nil: "form \<in> set placeholder_forms \<Longrightarrow> form \<noteq> []"
  by (auto simp: placeholder_forms_def placeholder_def)

lemma scan_hook_command_cong:
  assumes "expand_command pd c1 = expand_command pd c2" and "c1 = [] \<longleftrightarrow> c2 = []"
  shows "scan_hook e hn ha pd ev m (hook_with_command h1 h2 c1) st
           = scan_hook e hn ha pd ev m (hook_with_command h1 h2 c2) st"
  using assms
  by (cases "map_of h1 ''command''")
     (simp_all add: scan_hook_def hook_with_command_def map_add_def split: option.splits)

lemma scan_hooks_hook_cong:
  assumes "\<And>st. scan_hook e hn ha pd ev m x st = scan_hook e hn ha pd ev m y st"
  shows "scan_hooks e hn ha pd ev m (hs1 @ x # hs2) st = scan_hooks e hn ha pd ev m (hs1 @ y # hs2) st"
  by (induction hs1 arbitrary: st) (simp_all add: assms split: option.splits)

lemma scan_config_hook_cong:
  assumes "\<And>m st. scan_hook e hn ha pd ev m x st = scan_hook e hn ha pd ev m y st"
  shows "scan_config e hn ha pd ev (config_with_hook c1 c2 hs1 hs2 x) st
           = scan_config e hn ha pd ev (config_with_hook c1 c2 hs1 hs2 y) st"
  using scan_hooks_hook_cong [of e hn ha pd ev _ x y hs1 hs2, OF assms]
  by (cases "map_of c1 ''hooks''")
     (simp_all add: scan_config_def config_with_hook_def map_add_def split: option.splits)

lemma scan_configs_config_cong:
  assumes "\<And>st. scan_config e hn ha pd ev x st = scan_config e hn ha pd ev y st"
  shows "scan_configs e hn ha pd ev (cs1 @ x # cs2) st = scan_configs e hn ha pd ev (cs1 @ y # cs2) st"
  by (induction cs1 arbitrary: st) (simp_all add: assms split: option.splits)

lemma scan_events_config_cong:
  assumes "\<And>st. scan_config e hn ha pd event x st = scan_config e hn ha pd event y st"
  shows "scan_events e hn ha pd (ev1 @ (event, JArr (cs1 @ x # cs2)) # ev2) st
           = scan_events e hn ha pd (ev1 @ (event, JArr (cs1 @ y # cs2)) # ev2) st"
  by (induction ev1 arbitrary: st)
     (auto simp: scan_configs_config_cong [of e hn ha pd event x y, OF assms] split: option.splits)

lemma find_hook_in_settings_command_cong:
  assumes ex: "expand_command pd c1 = expand_command pd c2" and ne: "c1 = [] \<longleftrightarrow> c2 = []"
    and r: "resolve e1 = resolve e2"
    and s1: "settings_file e1 p = Loaded (settings_with_config t1 t2 ev1 ev2 event cs1 cs2
               (config_with_hook k1 k2 hs1 hs2 (hook_with_command h1 h2 c1)))"
    and s2: "settings_file e2 p = Loaded (settings_with_config t1 t2 ev1 ev2 event cs1 cs2
               (config_with_hook k1 k2 hs1 hs2 (hook_with_command h1 h2 c2)))"
  shows "find_hook_in_settings e1 p hs pd = find_hook_in_settings e2 p hs pd"
proof -
  have cfg: "scan_config e2 hn ha pd event
               (config_with_hook k1 k2 hs1 hs2 (hook_with_command h1 h2 c1)) st
           = scan_config e2 hn ha pd event
               (config_with_hook k1 k2 hs1 hs2 (hook_with_command h1 h2 c2)) st" for hn ha st
    by (rule scan_config_hook_cong) (rule scan_hook_command_cong [OF ex ne])
  have evs: "scan_events e2 hn ha pd
               (ev1 @ (event, JArr (cs1 @ config_with_hook k1 k2 hs1 hs2
                                            (hook_with_command h1 h2 c1) # cs2)) # ev2) st
           = scan_events e2 hn ha pd
               (ev1 @ (event, JArr (cs1 @ config_with_hook k1 k2 hs1 hs2
                                            (hook_with_command h1 h2 c2) # cs2)) # ev2) st"
    for hn ha st
    by (rule scan_events_config_cong) (rule cfg)
  show ?thesis
    by (cases "map_of t1 ''hooks''")
       (simp_all add: find_hook_in_settings_def s1 s2 r settings_with_config_def map_add_def
          scan_events_env [OF r] evs
          cong: resolve_outcome.case_cong option.case_cong)
qed


section \<open>Properties of the registry and of the scope description\<close>

text \<open>
  C2 (as amended). Every name of the registry has a spec, and every other name has none
  (the lookup signals not-found). The required payload fields of a registered event are
  empty exactly for \<open>PreCompact\<close>: every other registered event has at least one.
\<close>

theorem event_schema_required:
  "(in_EVENT_SCHEMAS event \<longleftrightarrow> event_schema event \<noteq> None) \<and>
   (\<forall>spec. event_schema event = Some spec \<longrightarrow>
      (length (required spec) = 0 \<longleftrightarrow> event = ''PreCompact''))"
  by (simp add: in_EVENT_SCHEMAS_def event_schema_def EVENT_SCHEMAS_def)

theorem event_schema_required_witness:
  "in_EVENT_SCHEMAS ''Stop'' \<and> event_schema ''Stop'' \<noteq> None \<and>
   map_option required (event_schema ''Stop'') = Some [''stop_hook_active'']"
  using event_schema_required [of "''Stop''"]
  by (simp add: in_EVENT_SCHEMAS_def event_schema_def EVENT_SCHEMAS_def)

text \<open>
  C2, counterexample. \<open>PreCompact\<close> is a key of the registry and its spec has no required
  payload field.
\<close>

theorem event_schema_PreCompact_counterexample:
  "in_EVENT_SCHEMAS ''PreCompact'' \<and>
   map_option (\<lambda>spec. length (required spec)) (event_schema ''PreCompact'') = Some 0"
  by (simp add: in_EVENT_SCHEMAS_def event_schema_def EVENT_SCHEMAS_def)

text \<open>
  C6. The scope description is "Will run in ALL projects" exactly when \<open>user\<close> is true, and
  it is the "Will NOT run" line exactly when none of \<open>project\<close>, \<open>local\<close>, \<open>user\<close> is true.
  It reads nothing but these three booleans.
\<close>

theorem scope_description_iff:
  "(scope_description i = ''Will run in ALL projects'' \<longleftrightarrow> user i) \<and>
   (scope_description i = ''Will NOT run (not registered in any settings file)''
      \<longleftrightarrow> \<not> project i \<and> \<not> local i \<and> \<not> user i) \<and>
   scope_description (i\<lparr>events := es, matchers := ms\<rparr>) = scope_description i"
  by (simp add: scope_description_def)

theorem scope_description_iff_witness:
  "scope_description
     \<lparr>project = False, local = False, user = True, events = [''Stop''], matchers = []\<rparr>
   = ''Will run in ALL projects''"
  using scope_description_iff
    [of "\<lparr>project = False, local = False, user = True, events = [''Stop''], matchers = []\<rparr>"]
  by simp

section \<open>The installation locator\<close>

text \<open>
  C1 (as amended). Take a hook entry of type \<open>command\<close> whose command is a non-empty string.
  In the loop of \<open>find_hook_in_settings\<close> the entry registers the script (it sets \<open>found\<close>,
  appends its event, and its matcher unless that is \<open>*\<close>) exactly when the command text with
  the placeholder expanded contains the script's filename and some token of that text with
  its quote characters removed contains the filename and either resolves to the script's
  absolute path or ends with the filename; otherwise the entry leaves the result as it was.
  The filename suffix test is applied whenever the resolved-path test did not succeed: when
  resolution fails and also when it yields a different path. For a settings file that holds
  this one entry, under one event, the result of \<open>find_hook_in_settings\<close> is decided in the
  same way.
\<close>

theorem command_registers_iff:
  assumes ty: "dict_get hook ''type'' (JStr ''command'') = Some (JStr ''command'')"
    and cm: "dict_get hook ''command'' (JStr []) = Some (JStr c)"
    and ne: "c \<noteq> []"
  shows "scan_hook e hook_name hook_abs project_dir event matcher hook (found, evs, ms) =
      Some (if str_in hook_name (expand_command project_dir c) \<and>
               (\<exists>part \<in> set (split_ws (strip_quotes (expand_command project_dir c))).
                   str_in hook_name part \<and>
                   (resolve e (mk_path part) = Resolved hook_abs \<or> endswith part hook_name))
            then (True, evs @ [event], if matcher \<noteq> JStr ''*'' then ms @ [matcher] else ms)
            else (found, evs, ms))
    \<and> (settings_file e settings_path
          = Loaded (JObj [(''hooks'', JObj [(event, JArr [config])])]) \<and>
       dict_get config ''matcher'' (JStr ''*'') = Some matcher \<and>
       dict_get config ''hooks'' (JArr []) = Some (JArr [hook]) \<and>
       resolve e hook_script = Resolved hook_abs \<and> hook_name = path_name hook_script \<longrightarrow>
       find_hook_in_settings e settings_path hook_script project_dir =
         Some (if str_in hook_name (expand_command project_dir c) \<and>
                  (\<exists>part \<in> set (split_ws (strip_quotes (expand_command project_dir c))).
                      str_in hook_name part \<and>
                      (resolve e (mk_path part) = Resolved hook_abs \<or> endswith part hook_name))
               then (True, [event], if matcher \<noteq> JStr ''*'' then [matcher] else [])
               else (False, [], [])))"
proof -
  let ?M = "str_in hook_name (expand_command project_dir c) \<and>
     (\<exists>part \<in> set (split_ws (strip_quotes (expand_command project_dir c))).
         str_in hook_name part \<and>
         (resolve e (mk_path part) = Resolved hook_abs \<or> endswith part hook_name))"
  have step: "scan_hook e hook_name hook_abs project_dir event matcher hook (f, es, xs) =
      Some (if ?M then (True, es @ [event], if matcher \<noteq> JStr ''*'' then xs @ [matcher] else xs)
            else (f, es, xs))" for f es xs
    using ty cm ne by (simp add: scan_hook_def Let_def match_parts_exists)
  have "find_hook_in_settings e settings_path hook_script project_dir =
      Some (if ?M then (True, [event], if matcher \<noteq> JStr ''*'' then [matcher] else [])
            else (False, [], []))"
    if a: "settings_file e settings_path
             = Loaded (JObj [(''hooks'', JObj [(event, JArr [config])])])"
      and b: "dict_get config ''matcher'' (JStr ''*'') = Some matcher"
      and c: "dict_get config ''hooks'' (JArr []) = Some (JArr [hook])"
      and d: "resolve e hook_script = Resolved hook_abs"
      and n: "hook_name = path_name hook_script"
  proof -
    have "scan_config e hook_name hook_abs project_dir event config (False, [], []) =
        Some (if ?M then (True, [event], if matcher \<noteq> JStr ''*'' then [matcher] else [])
              else (False, [], []))"
      using b c step [of False "[]" "[]"] by (simp add: scan_config_def)
    then show ?thesis
      using a d n by (simp add: find_hook_in_settings_def)
  qed
  with step [of found evs ms] show ?thesis by blast
qed

text \<open>
  Two runs for the script \<open>/proj/.claude/hooks/check.py\<close>. In the first the command is
  \<open>python3 /proj/.claude/hooks/check".py"\<close>: once the quotes are removed its second token is
  the script's own path, but the text as written does not contain \<open>check.py\<close>, and the
  script is not found. In the second the command is \<open>python3 /elsewhere/check.py\<close>, whose
  token resolves to another path and ends with the filename: the script is found.
\<close>

theorem command_registers_iff_witness:
  "resolve ex_env (mk_path ''/proj/.claude/hooks/check.py'') = Resolved ex_check_py \<and>
   split_ws (strip_quotes (expand_command ex_project
       (''python3 /proj/.claude/hooks/check'' @ [dquote] @ ''.py'' @ [dquote])))
     = [''python3'', ''/proj/.claude/hooks/check.py''] \<and>
   \<not> str_in ''check.py'' (expand_command ex_project
       (''python3 /proj/.claude/hooks/check'' @ [dquote] @ ''.py'' @ [dquote])) \<and>
   find_hook_in_settings env_quoted_name (mk_path ''/proj/.claude/settings.json'')
       ex_check_py ex_project
     = Some (False, [], []) \<and>
   resolve env_other_path (mk_path ''/elsewhere/check.py'') \<noteq> Resolved ex_check_py \<and>
   find_hook_in_settings env_other_path (mk_path ''/proj/.claude/settings.json'')
       ex_check_py ex_project
     = Some (True, [''PreToolUse''], [JStr ''Write''])"
proof -
  let ?q = "''python3 /proj/.claude/hooks/check'' @ [dquote] @ ''.py'' @ [dquote]"
  let ?hq = "JObj [(''type'', JStr ''command''), (''command'', JStr ?q)]"
  let ?cq = "JObj [(''matcher'', JStr ''Write''), (''hooks'', JArr [?hq])]"
  let ?o = "''python3 /elsewhere/check.py''"
  let ?ho = "JObj [(''type'', JStr ''command''), (''command'', JStr ?o)]"
  let ?co = "JObj [(''matcher'', JStr ''Write''), (''hooks'', JArr [?ho])]"
  let ?sp = "mk_path ''/proj/.claude/settings.json''"
  have r1: "resolve ex_env (mk_path ''/proj/.claude/hooks/check.py'') = Resolved ex_check_py"
    by code_simp
  have r2: "split_ws (strip_quotes (expand_command ex_project ?q))
      = [''python3'', ''/proj/.claude/hooks/check.py'']"
    by code_simp
  have r3: "\<not> str_in ''check.py'' (expand_command ex_project ?q)"
    by code_simp
  have r4: "resolve env_other_path (mk_path ''/elsewhere/check.py'') \<noteq> Resolved ex_check_py"
    by code_simp
  have q1: "dict_get ?hq ''type'' (JStr ''command'') = Some (JStr ''command'')" by simp
  have q2: "dict_get ?hq ''command'' (JStr []) = Some (JStr ?q)" by simp
  have q3: "?q \<noteq> []" by simp
  have q4: "settings_file env_quoted_name ?sp
      = Loaded (JObj [(''hooks'', JObj [(''PreToolUse'', JArr [?cq])])])"
    by (simp add: env_quoted_name_def settings_quoted_name_def)
  have q5: "dict_get ?cq ''matcher'' (JStr ''*'') = Some (JStr ''Write'')" by simp
  have q6: "dict_get ?cq ''hooks'' (JArr []) = Some (JArr [?hq])" by simp
  have q7: "resolve env_quoted_name ex_check_py = Resolved ex_check_py"
    by (simp add: env_quoted_name_def ex_env_def)
  have q8: "''check.py'' = path_name ex_check_py" by code_simp
  have fq: "find_hook_in_settings env_quoted_name ?sp ex_check_py ex_project = Some (False, [], [])"
    using command_registers_iff [OF q1 q2 q3, where e = env_quoted_name
        and hook_name = "''check.py''" and hook_abs = ex_check_py and project_dir = ex_project
        and event = "''PreToolUse''" and matcher = "JStr ''Write''" and settings_path = ?sp
        and config = ?cq and hook_script = ex_check_py] q4 q5 q6 q7 q8 r3
    by simp
  have o1: "dict_get ?ho ''type'' (JStr ''command'') = Some (JStr ''command'')" by simp
  have o2: "dict_get ?ho ''command'' (JStr []) = Some (JStr ?o)" by simp
  have o3: "?o \<noteq> []" by simp
  have o4: "settings_file env_other_path ?sp
      = Loaded (JObj [(''hooks'', JObj [(''PreToolUse'', JArr [?co])])])"
    by (simp add: env_other_path_def settings_other_path_def)
  have o5: "dict_get ?co ''matcher'' (JStr ''*'') = Some (JStr ''Write'')" by simp
  have o6: "dict_get ?co ''hooks'' (JArr []) = Some (JArr [?ho])" by simp
  have o7: "resolve env_other_path ex_check_py = Resolved ex_check_py"
    by (simp add: env_other_path_def ex_env_def)
  have o8: "str_in ''check.py'' (expand_command ex_project ?o) \<and>
     (\<exists>part \<in> set (split_ws (strip_quotes (expand_command ex_project ?o))).
         str_in ''check.py'' part \<and>
         (resolve env_other_path (mk_path part) = Resolved ex_check_py
          \<or> endswith part ''check.py''))"
    by code_simp
  have fo: "find_hook_in_settings env_other_path ?sp ex_check_py ex_project
      = Some (True, [''PreToolUse''], [JStr ''Write''])"
    using command_registers_iff [OF o1 o2 o3, where e = env_other_path
        and hook_name = "''check.py''" and hook_abs = ex_check_py and project_dir = ex_project
        and event = "''PreToolUse''" and matcher = "JStr ''Write''" and settings_path = ?sp
        and config = ?co and hook_script = ex_check_py] o4 o5 o6 o7 q8 o8
    by simp
  from r1 r2 r3 r4 fq fo show ?thesis by blast
qed

text \<open>
  C1, counterexample. The settings run \<open>/elsewhere/check.py\<close>; the script validated is
  \<open>/proj/.claude/hooks/check.py\<close>. The token resolves, to a path that is not the script's,
  and the script is still found, under the event and the matcher of that command.
\<close>

theorem suffix_match_other_path_counterexample:
  "resolve env_other_path (mk_path ''/elsewhere/check.py'')
     = Resolved (mk_path ''/elsewhere/check.py'') \<and>
   resolve env_other_path ex_check_py = Resolved ex_check_py \<and>
   mk_path ''/elsewhere/check.py'' \<noteq> ex_check_py \<and>
   find_hook_in_settings env_other_path (mk_path ''/proj/.claude/settings.json'')
       ex_check_py ex_project
     = Some (True, [''PreToolUse''], [JStr ''Write''])"
  by code_simp


text \<open>
  C7 (as amended). Take a command string \<open>pre @ form @ post\<close> anywhere in a settings
  document, where \<open>form\<close> is one of the three forms of the placeholder, no \<open>$\<close> occurs in
  \<open>pre\<close>, in \<open>post\<close> or in the project directory, and the placeholder is not already
  enclosed by a pair of double or of single quotes that end \<open>pre\<close> and begin \<open>post\<close>. Then
  every form expands to the project directory in place, \<open>find_hook_in_settings\<close> returns
  the same result for any two forms, and so does \<open>check_installation_status\<close>.
\<close>

theorem placeholder_forms_same_result:
  assumes "CHR ''$'' \<notin> set pre" and "CHR ''$'' \<notin> set post"
    and "CHR ''$'' \<notin> set (path_str project_dir)"
    and "\<not> (pre \<noteq> [] \<and> last pre = dquote \<and> post \<noteq> [] \<and> hd post = dquote)"
    and "\<not> (pre \<noteq> [] \<and> last pre = squote \<and> post \<noteq> [] \<and> hd post = squote)"
    and "form1 \<in> set placeholder_forms" and "form2 \<in> set placeholder_forms"
  shows "expand_command project_dir (pre @ form1 @ post) = pre @ path_str project_dir @ post \<and>
    find_hook_in_settings
      (e\<lparr>settings_file := (settings_file e)(settings_path := Loaded
          (settings_with_config t1 t2 ev1 ev2 event cs1 cs2
             (config_with_hook k1 k2 hs1 hs2 (hook_with_command h1 h2 (pre @ form1 @ post)))))\<rparr>)
      settings_path hook_script project_dir
    = find_hook_in_settings
      (e\<lparr>settings_file := (settings_file e)(settings_path := Loaded
          (settings_with_config t1 t2 ev1 ev2 event cs1 cs2
             (config_with_hook k1 k2 hs1 hs2 (hook_with_command h1 h2 (pre @ form2 @ post)))))\<rparr>)
      settings_path hook_script project_dir \<and>
    check_installation_status
      (e\<lparr>settings_file := (settings_file e)(settings_path := Loaded
          (settings_with_config t1 t2 ev1 ev2 event cs1 cs2
             (config_with_hook k1 k2 hs1 hs2 (hook_with_command h1 h2 (pre @ form1 @ post)))))\<rparr>)
      hook_script project_dir
    = check_installation_status
      (e\<lparr>settings_file := (settings_file e)(settings_path := Loaded
          (settings_with_config t1 t2 ev1 ev2 event cs1 cs2
             (config_with_hook k1 k2 hs1 hs2 (hook_with_command h1 h2 (pre @ form2 @ post)))))\<rparr>)
      hook_script project_dir"
proof -
  let ?doc = "\<lambda>form. settings_with_config t1 t2 ev1 ev2 event cs1 cs2
      (config_with_hook k1 k2 hs1 hs2 (hook_with_command h1 h2 (pre @ form @ post)))"
  let ?env = "\<lambda>form. e\<lparr>settings_file := (settings_file e)(settings_path := Loaded (?doc form))\<rparr>"
  have x1: "expand_command project_dir (pre @ form1 @ post) = pre @ path_str project_dir @ post"
    using assms by (intro expand_command_form) simp_all
  have x2: "expand_command project_dir (pre @ form2 @ post) = pre @ path_str project_dir @ post"
    using assms by (intro expand_command_form) simp_all
  have ne: "form1 \<noteq> []" "form2 \<noteq> []"
    using assms(6,7) by (simp_all add: placeholder_form_not_Nil)
  have main: "find_hook_in_settings (?env form1) settings_path hook_script project_dir
      = find_hook_in_settings (?env form2) settings_path hook_script project_dir"
    by (rule find_hook_in_settings_command_cong [where ?c1.0 = "pre @ form1 @ post"
          and ?c2.0 = "pre @ form2 @ post"])
       (simp_all add: x1 x2 ne)
  have other: "find_hook_in_settings (?env form1) p hook_script project_dir
      = find_hook_in_settings (?env form2) p hook_script project_dir" for p
  proof (cases "p = settings_path")
    case True
    with main show ?thesis by simp
  next
    case False
    then show ?thesis by (intro find_hook_in_settings_env) simp_all
  qed
  have "check_installation_status (?env form1) hook_script project_dir
      = check_installation_status (?env form2) hook_script project_dir"
    by (rule check_installation_status_env) (simp_all add: other)
  with x1 main show ?thesis by blast
qed

theorem placeholder_forms_same_result_witness:
  "CHR ''$'' \<notin> set ''python3 '' \<and> CHR ''$'' \<notin> set ''/.claude/hooks/check.py'' \<and>
   CHR ''$'' \<notin> set (path_str ex_project) \<and>
   [dquote] @ placeholder @ [dquote] \<in> set placeholder_forms \<and>
   placeholder \<in> set placeholder_forms \<and>
   find_hook_in_settings
     (ex_env\<lparr>settings_file := (settings_file ex_env)(mk_path ''/proj/.claude/settings.json'' :=
        Loaded (settings_one_command
          (''python3 '' @ ([dquote] @ placeholder @ [dquote]) @ ''/.claude/hooks/check.py'')))\<rparr>)
     (mk_path ''/proj/.claude/settings.json'') ex_check_py ex_project
     = Some (True, [''PreToolUse''], []) \<and>
   find_hook_in_settings
     (ex_env\<lparr>settings_file := (settings_file ex_env)(mk_path ''/proj/.claude/settings.json'' :=
        Loaded (settings_one_command
          (''python3 '' @ placeholder @ ''/.claude/hooks/check.py'')))\<rparr>)
     (mk_path ''/proj/.claude/settings.json'') ex_check_py ex_project
     = Some (True, [''PreToolUse''], [])"
proof -
  have h1: "CHR ''$'' \<notin> set ''python3 ''" by simp
  have h2: "CHR ''$'' \<notin> set ''/.claude/hooks/check.py''" by simp
  have h3: "CHR ''$'' \<notin> set (path_str ex_project)" by code_simp
  have h4: "\<not> (''python3 '' \<noteq> [] \<and> last ''python3 '' = dquote
      \<and> ''/.claude/hooks/check.py'' \<noteq> [] \<and> hd ''/.claude/hooks/check.py'' = dquote)"
    by (simp add: dquote_def)
  have h5: "\<not> (''python3 '' \<noteq> [] \<and> last ''python3 '' = squote
      \<and> ''/.claude/hooks/check.py'' \<noteq> [] \<and> hd ''/.claude/hooks/check.py'' = squote)"
    by (simp add: squote_def)
  have h6: "[dquote] @ placeholder @ [dquote] \<in> set placeholder_forms"
    by (simp add: placeholder_forms_def)
  have h7: "placeholder \<in> set placeholder_forms"
    by (simp add: placeholder_forms_def)
  have a: "find_hook_in_settings
     (ex_env\<lparr>settings_file := (settings_file ex_env)(mk_path ''/proj/.claude/settings.json'' :=
        Loaded (settings_one_command
          (''python3 '' @ ([dquote] @ placeholder @ [dquote]) @ ''/.claude/hooks/check.py'')))\<rparr>)
     (mk_path ''/proj/.claude/settings.json'') ex_check_py ex_project
     = Some (True, [''PreToolUse''], [])"
    by code_simp
  from placeholder_forms_same_result [OF h1 h2 h3 h4 h5 h6 h7,
      where e = ex_env and settings_path = "mk_path ''/proj/.claude/settings.json''"
        and hook_script = ex_check_py
        and ?t1.0 = "[]" and ?t2.0 = "[]" and ?ev1.0 = "[]" and ?ev2.0 = "[]"
        and event = "''PreToolUse''" and ?cs1.0 = "[]" and ?cs2.0 = "[]"
        and ?k1.0 = "[]" and ?k2.0 = "[]" and ?hs1.0 = "[]" and ?hs2.0 = "[]"
        and ?h1.0 = "[]" and ?h2.0 = "[]"]
  have "find_hook_in_settings
     (ex_env\<lparr>settings_file := (settings_file ex_env)(mk_path ''/proj/.claude/settings.json'' :=
        Loaded (settings_one_command
          (''python3 '' @ ([dquote] @ placeholder @ [dquote]) @ ''/.claude/hooks/check.py'')))\<rparr>)
     (mk_path ''/proj/.claude/settings.json'') ex_check_py ex_project
     = find_hook_in_settings
     (ex_env\<lparr>settings_file := (settings_file ex_env)(mk_path ''/proj/.claude/settings.json'' :=
        Loaded (settings_one_command
          (''python3 '' @ placeholder @ ''/.claude/hooks/check.py'')))\<rparr>)
     (mk_path ''/proj/.claude/settings.json'') ex_check_py ex_project"
    by (simp add: settings_one_command_def)
  with a h1 h2 h3 h6 h7 show ?thesis by simp
qed

text \<open>
  C7, counterexample. With project directory \<open>/proj\<close> and the script \<open>/proj-hook.py\<close>, the
  command \<open>"$CLAUDE_PROJECT_DIR"-hook.py\<close> (the bare placeholder between two double quotes)
  registers the script, and the same command with the double-quoted form in place of the
  bare one, \<open>""$CLAUDE_PROJECT_DIR""-hook.py\<close>, does not. With project directory
  \<open>/w/$CLAUDE_PROJECT_DIRx\<close> and the script \<open>/w/$CLAUDE_PROJECT_DIRx.py\<close>, the command
  \<open>$CLAUDE_PROJECT_DIR.py\<close> registers the script and \<open>"$CLAUDE_PROJECT_DIR".py\<close> does not:
  the text put in for the double-quoted form is scanned again for the bare form.
\<close>

theorem placeholder_forms_differ_counterexample:
  "find_hook_in_settings
     (ex_env\<lparr>settings_file := (\<lambda>p. Loaded (settings_one_command
        ([dquote] @ placeholder @ [dquote] @ ''-hook.py'')))\<rparr>)
     (mk_path ''/proj/.claude/settings.json'') (mk_path ''/proj-hook.py'') ex_project
     = Some (True, [''PreToolUse''], []) \<and>
   find_hook_in_settings
     (ex_env\<lparr>settings_file := (\<lambda>p. Loaded (settings_one_command
        ([dquote] @ ([dquote] @ placeholder @ [dquote]) @ [dquote] @ ''-hook.py'')))\<rparr>)
     (mk_path ''/proj/.claude/settings.json'') (mk_path ''/proj-hook.py'') ex_project
     = Some (False, [], []) \<and>
   find_hook_in_settings
     (ex_env\<lparr>settings_file := (\<lambda>p. Loaded (settings_one_command
        (placeholder @ ''.py'')))\<rparr>)
     (mk_path ''/w/$CLAUDE_PROJECT_DIRx/.claude/settings.json'')
     (mk_path ''/w/$CLAUDE_PROJECT_DIRx.py'') (mk_path ''/w/$CLAUDE_PROJECT_DIRx'')
     = Some (True, [''PreToolUse''], []) \<and>
   find_hook_in_settings
     (ex_env\<lparr>settings_file := (\<lambda>p. Loaded (settings_one_command
        (([dquote] @ placeholder @ [dquote]) @ ''.py'')))\<rparr>)
     (mk_path ''/w/$CLAUDE_PROJECT_DIRx/.claude/settings.json'')
     (mk_path ''/w/$CLAUDE_PROJECT_DIRx.py'') (mk_path ''/w/$CLAUDE_PROJECT_DIRx'')
     = Some (False, [], [])"
  by code_simp


section \<open>The checks of a script\<close>

text \<open>
  C3, the failing input. A shell script with a \<open>#!/bin/bash\<close> line that \<open>bash -n\<close> rejects
  (return code 2). The syntax error is recorded, and the later checks still run: the report
  holds the stdin line, the event line and the line of the runtime probe, and the
  installation status is computed. For a Python script the function returns at the syntax
  error (line 480); the shell branch (lines 489 to 490) has no such return.
\<close>

theorem bash_syntax_error_continues:
  "validate_hook_script env_bad_bash ex_guard_sh ex_project (Some ''PreToolUse'') =
     Some \<lparr>errors = [cross_mark @ ''Bash syntax error: line 3: syntax error''],
           warnings = [],
           passed = [check_mark @ ''Script exists: guard.sh'',
                     check_mark @ ''Script is executable'',
                     check_mark @ ''Valid Bash shebang'',
                     check_mark @ ''Reads input from stdin'',
                     check_mark @ ''Detected event type: PreToolUse'',
                     check_mark @ ''Runtime test passed (exit code: 2)''],
           installation = Some new_InstallationInfo\<rparr>"
  by code_simp

text \<open>
  C5. For a probe that ended with a return code: with code 0, 1 or 2 the line "Runtime test
  passed" with that code is the next passed check and no error about the exit code is
  recorded; the step adds an error only when the output is not empty and parsing it raises
  an exception other than a JSON decode error, which is then recorded as "Runtime test
  failed". With any other code the error "Unexpected exit code" is recorded and no check
  passes. With code 2 and a stdout that is empty once stripped, the whole effect is that one
  passed line: the output is not parsed, and there is no line about it and no warning
  about stderr.
\<close>

theorem report_run_exit_codes:
  "(rc \<in> {0, 1, 2} \<longrightarrow>
      take (Suc (length (passed r))) (passed (report_run e (RunCompleted rc out err) r))
        = passed r @ [check_mark @ ''Runtime test passed (exit code: '' @ str_int rc @ '')''] \<and>
      errors (report_run e (RunCompleted rc out err) r)
        = errors r @ (if strip out = [] then []
                      else (case json_loads e out of
                              JsonRaises ex \<Rightarrow> [cross_mark @ ''Runtime test failed: '' @ ex]
                            | _ \<Rightarrow> []))) \<and>
   (rc \<notin> {0, 1, 2} \<longrightarrow>
      errors (report_run e (RunCompleted rc out err) r)
        = errors r @ [cross_mark @ ''Unexpected exit code: '' @ str_int rc] \<and>
      passed (report_run e (RunCompleted rc out err) r) = passed r) \<and>
   (rc = 2 \<and> strip out = [] \<longrightarrow>
      report_run e (RunCompleted rc out err) r = ok r ''Runtime test passed (exit code: 2)'')"
  by (simp add: report_run_def Let_def ok_def warn_def error_def str_int_def str_nat_digit
      split: json_outcome.splits)

theorem report_run_exit_codes_witness:
  "report_run ex_env (RunCompleted 2 [] ''denied'') new_result
     = ok new_result ''Runtime test passed (exit code: 2)'' \<and>
   errors (report_run ex_env (RunCompleted 3 [] []) new_result)
     = [cross_mark @ ''Unexpected exit code: 3''] \<and>
   passed (report_run env_deep_output (RunCompleted 0 deep_output []) new_result)
     = [check_mark @ ''Runtime test passed (exit code: 0)''] \<and>
   errors (report_run env_deep_output (RunCompleted 0 deep_output []) new_result)
     = [cross_mark @ ''Runtime test failed: maximum recursion depth exceeded while decoding a JSON array'']"
proof -
  have a: "report_run ex_env (RunCompleted 2 [] ''denied'') new_result
      = ok new_result ''Runtime test passed (exit code: 2)''"
    using report_run_exit_codes [where rc = 2 and e = ex_env and out = "[]"
        and err = "''denied''" and r = new_result]
    by (simp add: strip_def)
  have b: "errors (report_run ex_env (RunCompleted 3 [] []) new_result)
      = [cross_mark @ ''Unexpected exit code: 3'']"
    using report_run_exit_codes [where rc = 3 and e = ex_env and out = "[]" and err = "[]"
        and r = new_result]
    by (simp add: str_int_def str_nat_digit)
  have c: "passed (report_run env_deep_output (RunCompleted 0 deep_output []) new_result)
      = [check_mark @ ''Runtime test passed (exit code: 0)'']"
    by code_simp
  have d: "errors (report_run env_deep_output (RunCompleted 0 deep_output []) new_result)
      = [cross_mark @ ''Runtime test failed: maximum recursion depth exceeded while decoding a JSON array'']"
    by code_simp
  from a b c d show ?thesis by blast
qed

text \<open>
  C4 (as amended). For a script that exists, can be read and does not begin with \<open>#!\<close>, the
  missing-shebang error is recorded once and no interpreter is inferred: the guess from the
  file extension is made only for an unusual shebang line. So the syntax check, the stdin
  check, the exit-code check and the runtime probe are all skipped; the event detection with
  its stop-guard check and the installation check still run. The report is the one built by
  these steps alone, and its errors are, in this order, the not-executable error when the
  execute bit is missing, the missing-shebang error, and the stop-guard error when the
  event is Stop or SubagentStop and the content never names \<open>stop_hook_active\<close>.
\<close>

theorem missing_shebang_report:
  assumes "path_exists e script_path"
    and "read_text e script_path = ReadOk content"
    and "\<not> startswith content ''#!''"
  shows "validate_hook_script e script_path project_dir event_hint =
      map_option
        (\<lambda>i. (check_event (py_or event_hint (detect_hook_event script_path content)) content
                (error
                  (if \<not> access_x e script_path
                   then error (ok new_result (''Script exists: '' @ path_name script_path))
                          ''Script is not executable (run: chmod +x)''
                   else ok (ok new_result (''Script exists: '' @ path_name script_path))
                          ''Script is executable'')
                  ''Missing shebang (should start with #!/usr/bin/env python3 or #!/bin/bash)''))
              \<lparr>installation := Some i\<rparr>)
        (check_installation_status e script_path project_dir)
    \<and> (\<forall>r. validate_hook_script e script_path project_dir event_hint = Some r \<longrightarrow>
           errors r =
             (if \<not> access_x e script_path then [not_executable_error] else [])
             @ [missing_shebang_error]
             @ (if py_or event_hint (detect_hook_event script_path content)
                     \<in> {Some ''Stop'', Some ''SubagentStop''}
                   \<and> \<not> str_in ''stop_hook_active'' content
                then [stop_guard_error] else []))"
proof -
  have eq: "validate_hook_script e script_path project_dir event_hint =
      map_option
        (\<lambda>i. (check_event (py_or event_hint (detect_hook_event script_path content)) content
                (error
                  (if \<not> access_x e script_path
                   then error (ok new_result (''Script exists: '' @ path_name script_path))
                          ''Script is not executable (run: chmod +x)''
                   else ok (ok new_result (''Script exists: '' @ path_name script_path))
                          ''Script is executable'')
                  ''Missing shebang (should start with #!/usr/bin/env python3 or #!/bin/bash)''))
              \<lparr>installation := Some i\<rparr>)
        (check_installation_status e script_path project_dir)"
    using assms
    by (simp add: validate_hook_script_def validate_content_def check_shebang_missing
        check_syntax_def check_json_input_def check_exit_codes_def runtime_test_def Let_def
        split: option.splits)
  have "\<forall>r. validate_hook_script e script_path project_dir event_hint = Some r \<longrightarrow>
           errors r =
             (if \<not> access_x e script_path then [not_executable_error] else [])
             @ [missing_shebang_error]
             @ (if py_or event_hint (detect_hook_event script_path content)
                     \<in> {Some ''Stop'', Some ''SubagentStop''}
                   \<and> \<not> str_in ''stop_hook_active'' content
                then [stop_guard_error] else [])"
    unfolding eq
    by (auto simp: check_event_def Let_def not_executable_error_def missing_shebang_error_def
        stop_guard_error_def split: option.splits)
  with eq show ?thesis by blast
qed

theorem missing_shebang_report_witness:
  "path_exists (env_no_shebang\<lparr>access_x := \<lambda>p. False\<rparr>) ex_check_py \<and>
   read_text (env_no_shebang\<lparr>access_x := \<lambda>p. False\<rparr>) ex_check_py = ReadOk no_shebang_text \<and>
   \<not> startswith no_shebang_text ''#!'' \<and>
   map_option errors
     (validate_hook_script (env_no_shebang\<lparr>access_x := \<lambda>p. False\<rparr>) ex_check_py ex_project
        (Some ''Stop''))
     = Some [not_executable_error, missing_shebang_error, stop_guard_error]"
proof -
  let ?e = "env_no_shebang\<lparr>access_x := \<lambda>p. False\<rparr>"
  have h1: "path_exists ?e ex_check_py" by code_simp
  have h2: "read_text ?e ex_check_py = ReadOk no_shebang_text" by code_simp
  have h3: "\<not> startswith no_shebang_text ''#!''" by code_simp
  have "validate_hook_script ?e ex_check_py ex_project (Some ''Stop'') \<noteq> None" by code_simp
  then obtain r where r: "validate_hook_script ?e ex_check_py ex_project (Some ''Stop'') = Some r"
    by auto
  with missing_shebang_report [OF h1 h2 h3, of ex_project "Some ''Stop''"]
  have "errors r =
      (if \<not> access_x ?e ex_check_py then [not_executable_error] else [])
      @ [missing_shebang_error]
      @ (if py_or (Some ''Stop'') (detect_hook_event ex_check_py no_shebang_text)
              \<in> {Some ''Stop'', Some ''SubagentStop''}
            \<and> \<not> str_in ''stop_hook_active'' no_shebang_text
         then [stop_guard_error] else [])"
    by blast
  also have "\<dots> = [not_executable_error, missing_shebang_error, stop_guard_error]"
    by code_simp
  finally show ?thesis using r h1 h2 h3 by simp
qed

text \<open>
  C4, counterexample. A Python hook \<open>check.py\<close> with no \<open>#!\<close> line, whose content reads
  stdin as JSON, names \<open>tool_name\<close> and calls \<open>sys.exit(2)\<close>. The report has the
  missing-shebang error and three passed lines; no line of the syntax check, the stdin
  check, the exit-code check or the runtime probe, although the extension is \<open>.py\<close>. When
  the file is also not executable, the report has two errors.
\<close>

theorem missing_shebang_no_fallback_counterexample:
  "path_suffix ex_check_py = ''.py'' \<and>
   \<not> startswith no_shebang_text ''#!'' \<and>
   validate_hook_script env_no_shebang ex_check_py ex_project None =
     Some \<lparr>errors = [missing_shebang_error],
           warnings = [],
           passed = [check_mark @ ''Script exists: check.py'',
                     check_mark @ ''Script is executable'',
                     check_mark @ ''Detected event type: PreToolUse''],
           installation = Some new_InstallationInfo\<rparr> \<and>
   map_option errors
     (validate_hook_script (env_no_shebang\<lparr>access_x := \<lambda>p. False\<rparr>) ex_check_py ex_project None)
     = Some [not_executable_error, missing_shebang_error]"
  by code_simp

text \<open>
  C8 (as amended). For a script that exists and can be read, whose event (the hint, or else
  the detected event) is Stop or SubagentStop and whose content never names
  \<open>stop_hook_active\<close>: the report's success predicate is false; when the syntax check of
  step 5 records no error, the error flagging the infinite-loop risk is recorded exactly
  once; when the validation ends at a Python syntax error (step 5 returns before the event
  is looked at), that error is not recorded.
\<close>

theorem stop_guard_error_recorded:
  assumes ex: "path_exists e script_path"
    and rd: "read_text e script_path = ReadOk content"
    and ev: "py_or event_hint (detect_hook_event script_path content)
               \<in> {Some ''Stop'', Some ''SubagentStop''}"
    and ng: "\<not> str_in ''stop_hook_active'' content"
    and res: "validate_hook_script e script_path project_dir event_hint = Some r"
  shows "\<not> success r \<and>
     (\<not> syntax_error_recorded e script_path content \<longrightarrow>
        count_list (errors r) stop_guard_error = 1) \<and>
     (syntax_check_returns e script_path content \<longrightarrow>
        count_list (errors r) stop_guard_error = 0)"
proof -
  define r2 where "r2 =
     (if \<not> access_x e script_path
      then error (ok new_result (''Script exists: '' @ path_name script_path))
             ''Script is not executable (run: chmod +x)''
      else ok (ok new_result (''Script exists: '' @ path_name script_path))
             ''Script is executable'')"
  have c2: "count_list (errors r2) stop_guard_error = 0"
    by (simp add: r2_def stop_guard_error_def)
  obtain a b r4 where sb: "check_shebang script_path (split_on (CHR 0x0A) content) r2 = (a, b, r4)"
    by (cases "check_shebang script_path (split_on (CHR 0x0A) content) r2") auto
  have c4: "count_list (errors r4) stop_guard_error = 0"
    using check_shebang_count [of script_path "split_on (CHR 0x0A) content" r2] sb c2 by simp
  obtain stop r5 where sx: "check_syntax e script_path content a b r4 = (stop, r5)"
    by (cases "check_syntax e script_path content a b r4") auto
  have c5: "count_list (errors r5) stop_guard_error = 0"
    using check_syntax_count [of e script_path content a b r4] sx c4 by simp
  have a0: "a = fst (check_shebang script_path (split_on (CHR 0x0A) content) new_result)"
    and b0: "b = fst (snd (check_shebang script_path (split_on (CHR 0x0A) content) new_result))"
    using check_shebang_flags [of script_path "split_on (CHR 0x0A) content" r2 new_result] sb
    by simp_all
  have stop: "stop = syntax_check_returns e script_path content"
    using check_syntax_flag [of e script_path content a b r4
        "snd (snd (check_shebang script_path (split_on (CHR 0x0A) content) new_result))"] sx a0 b0
    by (simp add: syntax_check_returns_def split: prod.splits)
  have vc: "validate_content e script_path project_dir event_hint content r2 = Some r"
    using res ex rd
    by (cases "access_x e script_path") (simp_all add: validate_hook_script_def r2_def Let_def)
  have rec: "syntax_error_recorded e script_path content" if stop
    using that stop syntax_check_returns_recorded by simp
  show ?thesis
  proof (cases stop)
    case True
    with vc sb sx have "r = r5" by (simp add: validate_content_def)
    moreover have "errors r5 \<noteq> []"
      using True sx
      by (auto simp: check_syntax_def split: if_splits parse_outcome.splits bash_outcome.splits)
    ultimately show ?thesis using c5 stop True rec by (simp add: success_def)
  next
    case False
    with vc sb sx obtain i where r: "r =
        (runtime_test e script_path project_dir
           (py_or event_hint (detect_hook_event script_path content)) a b
           (check_exit_codes content a b
             (check_event (py_or event_hint (detect_hook_event script_path content)) content
               (check_json_input content a b r5))))\<lparr>installation := Some i\<rparr>"
      by (auto simp: validate_content_def Let_def split: option.splits)
    have "count_list (errors r) stop_guard_error = 1"
      using ev ng c5 by (simp add: r runtime_test_count check_event_errors)
    moreover from this have "errors r \<noteq> []" by auto
    ultimately show ?thesis using stop False by (simp add: success_def)
  qed
qed

theorem stop_guard_error_recorded_witness:
  "path_exists env_stop_hook ex_check_py \<and>
   read_text env_stop_hook ex_check_py = ReadOk stop_hook_text \<and>
   py_or None (detect_hook_event ex_check_py stop_hook_text) = Some ''Stop'' \<and>
   \<not> str_in ''stop_hook_active'' stop_hook_text \<and>
   \<not> syntax_error_recorded env_stop_hook ex_check_py stop_hook_text \<and>
   (\<exists>r. validate_hook_script env_stop_hook ex_check_py ex_project None = Some r \<and>
        \<not> success r \<and> count_list (errors r) stop_guard_error = 1)"
proof -
  have h1: "path_exists env_stop_hook ex_check_py" by code_simp
  have h2: "read_text env_stop_hook ex_check_py = ReadOk stop_hook_text" by code_simp
  have h3: "py_or None (detect_hook_event ex_check_py stop_hook_text) = Some ''Stop''"
    by code_simp
  then have h3': "py_or None (detect_hook_event ex_check_py stop_hook_text)
      \<in> {Some ''Stop'', Some ''SubagentStop''}"
    by simp
  have h4: "\<not> str_in ''stop_hook_active'' stop_hook_text" by code_simp
  have h5: "\<not> syntax_error_recorded env_stop_hook ex_check_py stop_hook_text" by code_simp
  have "validate_hook_script env_stop_hook ex_check_py ex_project None \<noteq> None" by code_simp
  then obtain r where r: "validate_hook_script env_stop_hook ex_check_py ex_project None = Some r"
    by auto
  from stop_guard_error_recorded [OF h1 h2 h3' h4 r] h5
  have "\<not> success r \<and> count_list (errors r) stop_guard_error = 1" by simp
  with r h1 h2 h3 h4 h5 show ?thesis by blast
qed

text \<open>
  C8, counterexample. A Python hook tagged \<open>Event: Stop\<close> that never names
  \<open>stop_hook_active\<close> and whose fourth line \<open>x = = 1\<close> is not Python: the report ends at the
  syntax error and holds no error about the infinite-loop risk.
\<close>

theorem stop_guard_not_recorded_counterexample:
  "path_exists env_stop_hook_broken ex_check_py \<and>
   read_text env_stop_hook_broken ex_check_py = ReadOk broken_stop_hook_text \<and>
   ast_parse env_stop_hook_broken broken_stop_hook_text
     = ParseSyntaxError ''invalid syntax'' (Some 4) \<and>
   detect_hook_event ex_check_py broken_stop_hook_text = Some ''Stop'' \<and>
   \<not> str_in ''stop_hook_active'' broken_stop_hook_text \<and>
   validate_hook_script env_stop_hook_broken ex_check_py ex_project None =
     Some \<lparr>errors = [cross_mark @ ''Python syntax error: invalid syntax (line 4)''],
           warnings = [],
           passed = [check_mark @ ''Script exists: check.py'',
                     check_mark @ ''Script is executable'',
                     check_mark @ ''Valid Python shebang''],
           installation = None\<rparr> \<and>
   count_list [cross_mark @ ''Python syntax error: invalid syntax (line 4)''] stop_guard_error = 0"
  by code_simp

text \<open>
  C10. For a script that exists and lacks the execute bit, the report is the report of the
  same run with the execute bit set, with the error "Script is not executable" put first
  among the errors and the passed line "Script is executable" taken out: every later check
  runs as it would for an executable script. The error is in the report, whose success
  predicate is therefore false.
\<close>

theorem not_executable_report:
  assumes ex: "path_exists e script_path"
    and nx: "\<not> access_x e script_path"
  shows "validate_hook_script e script_path project_dir event_hint =
      map_option
        (\<lambda>r. r\<lparr>errors := not_executable_error # errors r,
                 passed := remove1 (check_mark @ ''Script is executable'') (passed r)\<rparr>)
        (validate_hook_script (e\<lparr>access_x := \<lambda>p. True\<rparr>) script_path project_dir event_hint)
    \<and> (\<forall>r. validate_hook_script e script_path project_dir event_hint = Some r \<longrightarrow>
          not_executable_error \<in> set (errors r) \<and> \<not> success r)"
proof -
  let ?X = "check_mark @ ''Script exists: '' @ path_name script_path"
  let ?K = "check_mark @ ''Script is executable''"
  let ?T = "\<lambda>r. r\<lparr>errors := not_executable_error # errors r,
                 passed := remove1 ?K (passed r)\<rparr>"
  have r2n: "error (ok new_result (''Script exists: '' @ path_name script_path))
               ''Script is not executable (run: chmod +x)''
             = prepend_findings [not_executable_error] [] [?X] new_result"
    by (simp add: prepend_findings_def error_def ok_def new_result_def not_executable_error_def)
  have r2x: "ok (ok new_result (''Script exists: '' @ path_name script_path))
               ''Script is executable''
             = prepend_findings [] [] [?X, ?K] new_result"
    by (simp add: prepend_findings_def error_def ok_def new_result_def)
  have T: "?T (prepend_findings [] [] [?X, ?K] d) = prepend_findings [not_executable_error] [] [?X] d"
    for d
    by (simp add: prepend_findings_def check_mark_def)
  have T': "?T \<circ> prepend_findings [] [] [?X, ?K] = prepend_findings [not_executable_error] [] [?X]"
    using T by (simp add: fun_eq_iff del: append.simps)
  have eq: "validate_hook_script e script_path project_dir event_hint =
      map_option ?T
        (validate_hook_script (e\<lparr>access_x := \<lambda>p. True\<rparr>) script_path project_dir event_hint)"
  proof (cases "read_text e script_path")
    case (ReadOk content)
    then show ?thesis
      using ex nx
      by (simp add: validate_hook_script_def Let_def r2n r2x validate_content_prepend
          option.map_comp T' del: append.simps)
  next
    case (ReadError msg)
    then show ?thesis
      using ex nx
      by (simp add: validate_hook_script_def Let_def r2n r2x prepend_findings_ops [symmetric] T
          del: append.simps)
  qed
  moreover have "not_executable_error \<in> set (errors r) \<and> \<not> success r"
    if "validate_hook_script e script_path project_dir event_hint = Some r" for r
    using that unfolding eq by (auto simp: success_def)
  ultimately show ?thesis by blast
qed

theorem not_executable_report_witness:
  "path_exists (env_stop_hook\<lparr>access_x := \<lambda>p. False\<rparr>) ex_check_py \<and>
   \<not> access_x (env_stop_hook\<lparr>access_x := \<lambda>p. False\<rparr>) ex_check_py \<and>
   map_option errors
     (validate_hook_script (env_stop_hook\<lparr>access_x := \<lambda>p. False\<rparr>) ex_check_py ex_project
        (Some ''PreToolUse''))
     = Some [not_executable_error] \<and>
   map_option errors
     (validate_hook_script (env_stop_hook\<lparr>access_x := \<lambda>p. True\<rparr>) ex_check_py ex_project
        (Some ''PreToolUse''))
     = Some []"
proof -
  let ?e = "env_stop_hook\<lparr>access_x := \<lambda>p. False\<rparr>"
  have h1: "path_exists ?e ex_check_py" by code_simp
  have h2: "\<not> access_x ?e ex_check_py" by code_simp
  have x: "map_option errors
      (validate_hook_script (env_stop_hook\<lparr>access_x := \<lambda>p. True\<rparr>) ex_check_py ex_project
         (Some ''PreToolUse'')) = Some []"
    by code_simp
  have "?e\<lparr>access_x := \<lambda>p. True\<rparr> = env_stop_hook\<lparr>access_x := \<lambda>p. True\<rparr>" by simp
  with not_executable_report [OF h1 h2, of ex_project "Some ''PreToolUse''"]
  have "validate_hook_script ?e ex_check_py ex_project (Some ''PreToolUse'') =
      map_option
        (\<lambda>r. r\<lparr>errors := not_executable_error # errors r,
                 passed := remove1 (check_mark @ ''Script is executable'') (passed r)\<rparr>)
        (validate_hook_script (env_stop_hook\<lparr>access_x := \<lambda>p. True\<rparr>) ex_check_py ex_project
           (Some ''PreToolUse''))"
    by simp
  then have "map_option errors (validate_hook_script ?e ex_check_py ex_project (Some ''PreToolUse''))
      = Some [not_executable_error]"
    using x by (auto simp: option.map_comp comp_def)
  with h1 h2 x show ?thesis by blast
qed


section \<open>The checks of a settings file\<close>

text \<open>
  C9. A settings file whose \<open>hooks\<close> value is a non-empty object is validated by the loop
  over its event keys, after two passed lines. In that loop, a key that is not in the
  registry adds exactly one error, "Unknown event type", whatever is stored under that key,
  and the keys before and after it are validated as they are in the document without that
  key: the report is the report of the document without the key, with that one error put
  where the errors of the earlier keys end. A missing settings file gives a report with no
  error and no warning, whose one passed line says that the file was not found, and whose
  success predicate is true.
\<close>

theorem unknown_event_and_missing_file:
  "(settings_file e settings_path = Loaded (JObj kvs) \<and> map_of kvs ''hooks'' = Some (JObj items)
      \<and> items \<noteq> [] \<longrightarrow>
      validate_settings e settings_path project_dir level_name =
        validate_events e project_dir items
          (ok (ok new_result
                 ((if level_name \<noteq> [] then level_name else path_name settings_path)
                    @ '': Valid JSON''))
              ((if level_name \<noteq> [] then level_name else path_name settings_path)
                 @ '': '' @ str_nat (length items) @ '' event type(s) configured''))) \<and>
   (\<not> in_EVENT_SCHEMAS event \<longrightarrow>
      validate_events e project_dir (xs @ (event, configs) # ys) r =
        (case validate_events e project_dir xs r of
           None \<Rightarrow> None
         | Some r1 \<Rightarrow>
             map_option
               (\<lambda>r2. r2\<lparr>errors := errors r1 @ [cross_mark @ ''Unknown event type: '' @ event]
                                       @ drop (length (errors r1)) (errors r2)\<rparr>)
               (validate_events e project_dir ys r1))) \<and>
   validate_events e project_dir (xs @ ys) r =
     (case validate_events e project_dir xs r of
        None \<Rightarrow> None
      | Some r1 \<Rightarrow> validate_events e project_dir ys r1) \<and>
   (settings_file e settings_path = Missing \<longrightarrow>
      (\<exists>r. validate_settings e settings_path project_dir level_name = Some r
           \<and> success r \<and> errors r = [] \<and> warnings r = []
           \<and> passed r = [info_mark
                @ (if level_name \<noteq> [] then level_name else path_name settings_path)
                @ '': File not found (no hooks at this level)'']))"
  by (auto simp: validate_events_append validate_event_unknown validate_events_after_error
      validate_settings_def Let_def success_def split: option.splits)

theorem unknown_event_and_missing_file_witness:
  "\<not> in_EVENT_SCHEMAS ''PreToolUze'' \<and>
   settings_file ex_env (mk_path ''/proj/.claude/settings.json'') = Missing \<and>
   validate_settings env_unknown_event (mk_path ''/proj/.claude/settings.json'') ex_project
       ''PROJECT''
     = Some \<lparr>errors = [cross_mark @ ''Unknown event type: PreToolUze''], warnings = [],
             passed = [check_mark @ ''PROJECT: Valid JSON'',
                       check_mark @ ''PROJECT: 3 event type(s) configured''],
             installation = None\<rparr> \<and>
   validate_events ex_env ex_project
       ([(''Stop'', JArr [])] @ (''PreToolUze'', JInt 7) # [(''PreCompact'', JArr [])]) new_result
     = Some \<lparr>errors = [cross_mark @ ''Unknown event type: PreToolUze''], warnings = [],
             passed = [], installation = None\<rparr> \<and>
   validate_events ex_env ex_project
       ([(''Stop'', JArr [])] @ [(''PreCompact'', JArr [])]) new_result
     = Some \<lparr>errors = [], warnings = [], passed = [], installation = None\<rparr> \<and>
   (\<exists>r. validate_settings ex_env (mk_path ''/proj/.claude/settings.json'') ex_project ''PROJECT''
          = Some r \<and> success r \<and> errors r = [] \<and> warnings r = [])"
proof -
  have h1: "\<not> in_EVENT_SCHEMAS ''PreToolUze''" by code_simp
  have h2: "settings_file ex_env (mk_path ''/proj/.claude/settings.json'') = Missing"
    by code_simp
  note inst = unknown_event_and_missing_file [where event = "''PreToolUze''" and e = ex_env
      and project_dir = ex_project and xs = "[(''Stop'', JArr [])]" and configs = "JInt 7"
      and ys = "[(''PreCompact'', JArr [])]" and r = new_result
      and settings_path = "mk_path ''/proj/.claude/settings.json''" and level_name = "''PROJECT''"]
  have a: "validate_events ex_env ex_project
       ([(''Stop'', JArr [])] @ (''PreToolUze'', JInt 7) # [(''PreCompact'', JArr [])]) new_result
     = Some \<lparr>errors = [cross_mark @ ''Unknown event type: PreToolUze''], warnings = [],
             passed = [], installation = None\<rparr>"
    unfolding inst [THEN conjunct2, THEN conjunct1, THEN mp, OF h1] by code_simp
  have b: "validate_events ex_env ex_project
       ([(''Stop'', JArr [])] @ [(''PreCompact'', JArr [])]) new_result
     = Some \<lparr>errors = [], warnings = [], passed = [], installation = None\<rparr>"
    by code_simp
  have c: "\<exists>r. validate_settings ex_env (mk_path ''/proj/.claude/settings.json'') ex_project
              ''PROJECT'' = Some r \<and> success r \<and> errors r = [] \<and> warnings r = []"
    using inst [THEN conjunct2, THEN conjunct2, THEN conjunct2, THEN mp, OF h2] by blast
  have d: "validate_settings env_unknown_event (mk_path ''/proj/.claude/settings.json'')
       ex_project ''PROJECT''
     = Some \<lparr>errors = [cross_mark @ ''Unknown event type: PreToolUze''], warnings = [],
             passed = [check_mark @ ''PROJECT: Valid JSON'',
                       check_mark @ ''PROJECT: 3 event type(s) configured''],
             installation = None\<rparr>"
    by code_simp
  from h1 h2 a b c d show ?thesis by blast
qed

end
